theory Spec2Isabelle
  imports Main
begin

section \<open>JavaScript values and property reads\<close>

text \<open>
  The risk importer is a CommonJS module. The values its handlers pass around are JSON
  values (strings, numbers, booleans, null), \<open>undefined\<close> for an absent property, and, where
  an object is read under a name it does not hold itself, the member that every object
  literal inherits from \<open>Object.prototype\<close>. \<open>JBuiltin n\<close> stands for the value found there
  under the name \<open>n\<close>: a built-in function, or \<open>Object.prototype\<close> itself for \<open>__proto__\<close>.
  Numbers are integers; fractions do not occur in what is modelled.
\<close>

datatype jsval =
    JUndefined
  | JNull
  | JBool bool
  | JNum int
  | JStr string
  | JBuiltin string

text \<open>Truthiness, as \<open>!v\<close>, \<open>v || d\<close> and \<open>if (v)\<close> decide it.\<close>

fun truthy :: "jsval \<Rightarrow> bool" where
  "truthy JUndefined = False"
| "truthy JNull = False"
| "truthy (JBool b) = b"
| "truthy (JNum n) = (n \<noteq> 0)"
| "truthy (JStr s) = (s \<noteq> [])"
| "truthy (JBuiltin n) = True"

text \<open>\<open>v || null\<close> and \<open>v || "default"\<close>.\<close>

definition or_null :: "jsval \<Rightarrow> jsval" where
  "or_null v = (if truthy v then v else JNull)"

definition or_default :: "jsval \<Rightarrow> string \<Rightarrow> jsval" where
  "or_default v d = (if truthy v then v else JStr d)"

text \<open>
  The string-keyed members of \<open>Object.prototype\<close>. All are functions except \<open>__proto__\<close>,
  an accessor that yields the prototype of the object it is read from.
\<close>

definition object_prototype_names :: "string list" where
  "object_prototype_names =
     [''constructor'', ''__defineGetter__'', ''__defineSetter__'', ''hasOwnProperty'',
      ''__lookupGetter__'', ''__lookupSetter__'', ''isPrototypeOf'', ''propertyIsEnumerable'',
      ''toString'', ''valueOf'', ''__proto__'', ''toLocaleString'']"

text \<open>The \<open>name\<close> of the function held under a name: \<open>constructor\<close> is \<open>Object\<close>.\<close>

definition builtin_function_name :: "string \<Rightarrow> string" where
  "builtin_function_name n = (if n = ''constructor'' then ''Object'' else n)"

text \<open>
  \<open>obj[k]\<close> on an object literal or a parsed JSON object whose own properties are \<open>obj\<close>:
  the own property if there is one, else the inherited member, else \<open>undefined\<close>.
\<close>

definition js_get :: "(string \<rightharpoonup> jsval) \<Rightarrow> string \<Rightarrow> jsval" where
  "js_get obj k =
     (case obj k of
        Some v \<Rightarrow> v
      | None \<Rightarrow> if k \<in> set object_prototype_names then JBuiltin k else JUndefined)"

text \<open>
  \<open>obj[k] = v\<close> on an object literal. Under the key \<open>__proto__\<close> the inherited setter runs
  and no own property is created.
\<close>

definition js_set :: "(string \<rightharpoonup> 'a) \<Rightarrow> string \<Rightarrow> 'a \<Rightarrow> (string \<rightharpoonup> 'a)" where
  "js_set obj k v = (if k = ''__proto__'' then obj else obj(k \<mapsto> v))"

text \<open>
  \<open>b[k]\<close> where \<open>b\<close> is the inherited member \<open>JBuiltin n\<close>. \<open>Object.prototype\<close> holds exactly
  the names above and its own prototype is null. Of a built-in function only \<open>name\<close> is
  modelled; its other members (own, and inherited from \<open>Function.prototype\<close>) differ between
  functions and runtimes, and reading one is \<open>None\<close>.
\<close>

definition builtin_get :: "string \<Rightarrow> string \<Rightarrow> jsval option" where
  "builtin_get n k =
     (if n = ''__proto__'' then
        Some (if k = ''__proto__'' then JNull
              else if k \<in> set object_prototype_names then JBuiltin k
              else JUndefined)
      else if k = ''name'' then Some (JStr (builtin_function_name n))
      else None)"

section \<open>Field schema registry\<close>

datatype field_type = TString | TEnum | TDate

record field_def =
  field :: string
  label :: string
  required :: bool
  ftype :: field_type
  options :: "string list option"

definition mk_field :: "string \<Rightarrow> string \<Rightarrow> bool \<Rightarrow> field_type \<Rightarrow> string list option \<Rightarrow> field_def" where
  "mk_field f l r t os = \<lparr>field = f, label = l, required = r, ftype = t, options = os\<rparr>"

definition PROJECT_RISK_FIELDS :: "field_def list" where
  "PROJECT_RISK_FIELDS =
    [mk_field ''risk_name'' ''Risk name'' True TString None,
     mk_field ''risk_description'' ''Risk description'' True TString None,
     mk_field ''ai_lifecycle_phase'' ''AI lifecycle phase'' False TEnum
       (Some [''Problem definition & planning'', ''Data collection & processing'',
              ''Model development & training'', ''Model validation & testing'',
              ''Deployment & integration'', ''Monitoring & maintenance'',
              ''Decommissioning & retirement'']),
     mk_field ''risk_category'' ''Risk category'' False TEnum
       (Some [''Strategic risk'', ''Operational risk'', ''Compliance risk'', ''Financial risk'',
              ''Cybersecurity risk'', ''Reputational risk'', ''Legal risk'',
              ''Technological risk'', ''Third-party/vendor risk'', ''Environmental risk'',
              ''Human resources risk'', ''Geopolitical risk'', ''Fraud risk'',
              ''Data privacy risk'', ''Health and safety risk'']),
     mk_field ''impact'' ''Impact'' False TString None,
     mk_field ''likelihood'' ''Likelihood'' False TEnum
       (Some [''Rare'', ''Unlikely'', ''Possible'', ''Likely'', ''Almost Certain'']),
     mk_field ''severity'' ''Severity'' False TEnum
       (Some [''Negligible'', ''Minor'', ''Moderate'', ''Major'', ''Catastrophic'']),
     mk_field ''review_notes'' ''Review notes'' False TString None,
     mk_field ''mitigation_status'' ''Mitigation status'' False TEnum
       (Some [''Not Started'', ''In Progress'', ''Completed'', ''On Hold'', ''Deferred'',
              ''Canceled'', ''Requires review'']),
     mk_field ''current_risk_level'' ''Current risk level'' False TEnum
       (Some [''Very Low risk'', ''Low risk'', ''Medium risk'', ''High risk'',
              ''Very high risk'']),
     mk_field ''deadline'' ''Deadline'' False TDate None,
     mk_field ''mitigation_plan'' ''Mitigation plan'' False TString None]"

definition VENDOR_RISK_FIELDS :: "field_def list" where
  "VENDOR_RISK_FIELDS =
    [mk_field ''risk_description'' ''Risk description'' True TString None,
     mk_field ''impact_description'' ''Impact description'' False TString None,
     mk_field ''likelihood'' ''Likelihood'' False TEnum
       (Some [''Very likely'', ''Likely'', ''Possible'', ''Unlikely'', ''Rare'']),
     mk_field ''risk_severity'' ''Risk severity'' False TEnum
       (Some [''Very high'', ''High'', ''Moderate'', ''Low'', ''Very low'']),
     mk_field ''action_plan'' ''Action plan'' False TString None,
     mk_field ''action_owner'' ''Action owner'' False TString None]"

text \<open>The risk level matrix: likelihood, then severity, to the level's label.\<close>

definition RISK_MATRIX :: "(string \<times> (string \<times> string) list) list" where
  "RISK_MATRIX =
    [(''Almost Certain'',
        [(''Catastrophic'', ''Very high risk''), (''Major'', ''Very high risk''),
         (''Moderate'', ''High risk''), (''Minor'', ''Medium risk''),
         (''Negligible'', ''Low risk'')]),
     (''Likely'',
        [(''Catastrophic'', ''Very high risk''), (''Major'', ''High risk''),
         (''Moderate'', ''High risk''), (''Minor'', ''Medium risk''),
         (''Negligible'', ''Low risk'')]),
     (''Possible'',
        [(''Catastrophic'', ''High risk''), (''Major'', ''High risk''),
         (''Moderate'', ''Medium risk''), (''Minor'', ''Low risk''),
         (''Negligible'', ''Very low risk'')]),
     (''Unlikely'',
        [(''Catastrophic'', ''Medium risk''), (''Major'', ''Medium risk''),
         (''Moderate'', ''Low risk''), (''Minor'', ''Low risk''),
         (''Negligible'', ''Very low risk'')]),
     (''Rare'',
        [(''Catastrophic'', ''Low risk''), (''Major'', ''Low risk''),
         (''Moderate'', ''Very low risk''), (''Minor'', ''Very low risk''),
         (''Negligible'', ''No risk'')])]"

text \<open>
  \<open>RISK_MATRIX[likelihood]?.[severity]\<close>. Both objects are literals, so each read falls back
  to \<open>Object.prototype\<close>. A truthy key that is not a string (a number, a boolean, an
  inherited member) is converted to text that names no property of either object.
\<close>

definition matrix_cell :: "string \<Rightarrow> string \<Rightarrow> jsval option" where
  "matrix_cell likelihood severity =
     (case map_of RISK_MATRIX likelihood of
        Some row \<Rightarrow> Some (js_get (map_option JStr \<circ> map_of row) severity)
      | None \<Rightarrow>
          if likelihood \<in> set object_prototype_names then builtin_get likelihood severity
          else Some JUndefined)"

definition calculateRiskLevel :: "jsval \<Rightarrow> jsval \<Rightarrow> jsval option" where
  "calculateRiskLevel likelihood severity =
     (if \<not> truthy likelihood \<or> \<not> truthy severity then Some JNull
      else case (likelihood, severity) of
             (JStr l, JStr s) \<Rightarrow> map_option or_null (matrix_cell l s)
           | _ \<Rightarrow> Some JNull)"

section \<open>Rows\<close>

text \<open>
  Every row object carries the \<open>rowIndex\<close> of the spreadsheet line it came from. A parsed
  row holds the trimmed cell text under each header; a validated row holds the mapped
  values together with the validation verdict. Text is held as its UTF-8 bytes.
\<close>

record indexed =
  rowIndex :: nat

record 'v row = indexed +
  data :: "string \<rightharpoonup> 'v"

record 'v validated_row = "'v row" +
  isValid :: bool
  errors :: "string list"

record mapping_entry =
  sourceColumn :: string
  targetField :: string

text \<open>
  The rows of a request to the duplicate check or to the import are mapped rows: under a
  field key a row holds a string or null, or it does not hold the key at all.
\<close>

datatype mapped_value = MNull | MText string

text \<open>\<open>xs.join(sep)\<close> on strings.\<close>

fun join :: "string \<Rightarrow> string list \<Rightarrow> string" where
  "join sep [] = []"
| "join sep [x] = x"
| "join sep (x # y # ys) = x @ sep @ join sep (y # ys)"

section \<open>Mapping and validation (POST /validate)\<close>

text \<open>
  The handler reads two things from outside the module: the configuration flag
  \<open>autoCalculateRiskLevel\<close>, and the engine's \<open>Date\<close>. \<open>parse_date v\<close> is
  \<open>new Date(v).toISOString()\<close>, or \<open>None\<close> where \<open>getTime()\<close> is NaN.
\<close>

record validate_env =
  autoCalculateRiskLevel :: bool
  parse_date :: "jsval \<Rightarrow> string option"

definition fields_for :: "string \<Rightarrow> field_def list" where
  "fields_for riskType = (if riskType = ''vendor'' then VENDOR_RISK_FIELDS else PROJECT_RISK_FIELDS)"

text \<open>\<open>mapping.forEach((m) => { mappedData[m.targetField] = row.data[m.sourceColumn] || null })\<close>\<close>

definition apply_mapping :: "mapping_entry list \<Rightarrow> (string \<rightharpoonup> string) \<Rightarrow> (string \<rightharpoonup> jsval)" where
  "apply_mapping mapping d =
     fold (\<lambda>m md. js_set md (targetField m) (or_null (js_get (map_option JStr \<circ> d) (sourceColumn m))))
          mapping Map.empty"

definition field_label :: "field_def list \<Rightarrow> string \<Rightarrow> string" where
  "field_label flds f =
     (case find (\<lambda>fd. field fd = f) flds of
        Some fd \<Rightarrow> if label fd \<noteq> [] then label fd else f
      | None \<Rightarrow> f)"

definition required_errors :: "field_def list \<Rightarrow> (string \<rightharpoonup> jsval) \<Rightarrow> string list" where
  "required_errors flds md =
     map (\<lambda>f. field_label flds f @ '' is required'')
       (filter (\<lambda>f. \<not> truthy (js_get md f)) (map field (filter required flds)))"

text \<open>\<open>field.options.includes(value)\<close>: strict equality with one of the option strings.\<close>

definition js_includes :: "string list \<Rightarrow> jsval \<Rightarrow> bool" where
  "js_includes os v = (case v of JStr s \<Rightarrow> s \<in> set os | _ \<Rightarrow> False)"

definition enum_violation :: "(string \<rightharpoonup> jsval) \<Rightarrow> field_def \<Rightarrow> bool" where
  "enum_violation md fd =
     (truthy (js_get md (field fd)) \<and>
      (case options fd of Some os \<Rightarrow> \<not> js_includes os (js_get md (field fd)) | None \<Rightarrow> False))"

definition enum_errors :: "field_def list \<Rightarrow> (string \<rightharpoonup> jsval) \<Rightarrow> string list" where
  "enum_errors flds md =
     map (\<lambda>fd. label fd @ '' must be one of: '' @ join '', '' (case options fd of Some os \<Rightarrow> os | None \<Rightarrow> []))
       (filter (enum_violation md) (filter (\<lambda>fd. ftype fd = TEnum) flds))"

text \<open>One date field: an error, or the value rewritten to its ISO text.\<close>

definition check_date ::
  "validate_env \<Rightarrow> field_def \<Rightarrow> string list \<times> (string \<rightharpoonup> jsval) \<Rightarrow> string list \<times> (string \<rightharpoonup> jsval)" where
  "check_date env fd st =
     (case st of (errs, md) \<Rightarrow>
        if truthy (js_get md (field fd)) then
          (case parse_date env (js_get md (field fd)) of
             None \<Rightarrow> (errs @ [label fd @ '' must be a valid date''], md)
           | Some isoText \<Rightarrow> (errs, js_set md (field fd) (JStr isoText)))
        else (errs, md))"

definition check_dates ::
  "validate_env \<Rightarrow> field_def list \<Rightarrow> string list \<times> (string \<rightharpoonup> jsval) \<Rightarrow> string list \<times> (string \<rightharpoonup> jsval)" where
  "check_dates env flds st = fold (check_date env) (filter (\<lambda>fd. ftype fd = TDate) flds) st"

text \<open>
  The risk level step. A project row stores the level under \<open>risk_level_autocalculated\<close>
  from \<open>likelihood\<close> and \<open>severity\<close>; a vendor row stores it under \<open>risk_level\<close> from
  \<open>likelihood\<close> and \<open>risk_severity\<close>. Nothing is stored when the level is falsy.
\<close>

definition store_level :: "(string \<rightharpoonup> jsval) \<Rightarrow> string \<Rightarrow> jsval \<Rightarrow> (string \<rightharpoonup> jsval)" where
  "store_level md k lvl = (if truthy lvl then js_set md k lvl else md)"

definition auto_calculate :: "validate_env \<Rightarrow> string \<Rightarrow> (string \<rightharpoonup> jsval) \<Rightarrow> (string \<rightharpoonup> jsval) option" where
  "auto_calculate env riskType md =
     (if autoCalculateRiskLevel env then
        if riskType = ''project'' then
          map_option (store_level md ''risk_level_autocalculated'')
            (calculateRiskLevel (js_get md ''likelihood'') (js_get md ''severity''))
        else if riskType = ''vendor'' then
          map_option (store_level md ''risk_level'')
            (calculateRiskLevel (js_get md ''likelihood'') (js_get md ''risk_severity''))
        else Some md
      else Some md)"

definition validate_row ::
  "validate_env \<Rightarrow> mapping_entry list \<Rightarrow> string \<Rightarrow> string row \<Rightarrow> jsval validated_row option" where
  "validate_row env mapping riskType r =
     (let flds = fields_for riskType;
          md0 = apply_mapping mapping (data r);
          errs0 = required_errors flds md0 @ enum_errors flds md0;
          (errs, md1) = check_dates env flds (errs0, md0)
      in map_option
           (\<lambda>md. \<lparr>rowIndex = rowIndex r, data = md, isValid = (length errs = 0), errors = errs\<rparr>)
           (auto_calculate env riskType md1))"

record validate_summary =
  v_total :: nat
  v_valid :: nat
  v_invalid :: nat

definition validate ::
  "validate_env \<Rightarrow> mapping_entry list \<Rightarrow> string \<Rightarrow> string row list
     \<Rightarrow> (jsval validated_row list \<times> validate_summary) option" where
  "validate env mapping riskType rows =
     map_option
       (\<lambda>results.
          (results,
           \<lparr>v_total = length results,
            v_valid = length (filter isValid results),
            v_invalid = length (filter (\<lambda>r. \<not> isValid r) results)\<rparr>))
       (those (map (validate_row env mapping riskType) rows))"

section \<open>The tenant's store\<close>

text \<open>
  The handlers reach the tenant's schema through \<open>sequelize.query\<close>, with named
  replacements, on PostgreSQL. The store is modelled at the level of the statements the
  handlers send: the tables \<open>risks\<close> and \<open>vendorRisks\<close> hold rows with a generated \<open>id\<close>, the
  \<open>is_deleted\<close> flag the lookups test, and the other columns by name (\<open>JNull\<close> is SQL
  NULL); \<open>projects_risks\<close> and \<open>frameworks_risks\<close> hold pairs. The schema itself is the host
  platform's: a new row gets an identifier above every identifier in its table and
  \<open>is_deleted = false\<close>, a column an INSERT does not name stays NULL, and \<open>vendor_id\<close>,
  \<open>project_id\<close> and \<open>framework_id\<close> are integer columns. A column of another type holds
  a value as the statement wrote it: the key columns \<open>risk_name\<close> and \<open>risk_description\<close>
  hold text, and what the store makes of the text written to a column of arrays or of
  timestamps is not modelled.
\<close>

record stored =
  row_id :: nat
  is_deleted :: bool
  cols :: "string \<Rightarrow> jsval"

record db =
  risks :: "stored list"
  vendorRisks :: "stored list"
  projects_risks :: "(int \<times> nat) list"
  frameworks_risks :: "(int \<times> nat) list"

text \<open>
  The statements, each with the values of its replacements. The vendor INSERT carries the
  vendor's id apart from the replacements that go to text columns.
\<close>

datatype statement =
    SelectRisk jsval
  | UpdateRisk nat "(string \<times> jsval) list"
  | InsertRisk "(string \<times> jsval) list"
  | InsertProjectRisk jsval nat
  | InsertFrameworkRisk jsval nat
  | SelectVendorRiskByDescription jsval
  | SelectVendorRisk jsval jsval
  | UpdateVendorRisk nat "(string \<times> jsval) list"
  | InsertVendorRisk jsval "(string \<times> jsval) list"

text \<open>The named replacements of a statement, in the order the SQL text names them.\<close>

fun replacements :: "statement \<Rightarrow> (string \<times> jsval) list" where
  "replacements (SelectRisk risk_name) = [(''risk_name'', risk_name)]"
| "replacements (UpdateRisk i ps) = ps @ [(''id'', JNum (int i))]"
| "replacements (InsertRisk ps) = ps"
| "replacements (InsertProjectRisk project_id risk_id) =
     [(''project_id'', project_id), (''risk_id'', JNum (int risk_id))]"
| "replacements (InsertFrameworkRisk framework_id risk_id) =
     [(''framework_id'', framework_id), (''risk_id'', JNum (int risk_id))]"
| "replacements (SelectVendorRiskByDescription risk_description) =
     [(''risk_description'', risk_description)]"
| "replacements (SelectVendorRisk risk_description vendor_id) =
     [(''risk_description'', risk_description), (''vendor_id'', vendor_id)]"
| "replacements (UpdateVendorRisk i ps) = ps @ [(''id'', JNum (int i))]"
| "replacements (InsertVendorRisk vendor_id ps) = (''vendor_id'', vendor_id) # ps"

text \<open>
  A replacement as the statement carries it. \<open>sequelize.query\<close> writes a string as a quoted
  literal and, PostgreSQL text holding no null character, writes a backslash and the digit
  0 for each null character in it; a number goes as its digits and null as \<open>NULL\<close>.
\<close>

definition literal_text :: "string \<Rightarrow> string" where
  "literal_text s = concat (map (\<lambda>ch. if ch = CHR 0x00 then [CHR 0x5C, CHR 0x30] else [ch]) s)"

definition written :: "jsval \<Rightarrow> jsval" where
  "written v = (case v of JStr s \<Rightarrow> JStr (literal_text s) | _ \<Rightarrow> v)"

definition written_all :: "(string \<times> jsval) list \<Rightarrow> (string \<times> jsval) list" where
  "written_all ps = map (\<lambda>p. (fst p, written (snd p))) ps"

text \<open>
  A replacement that meets an integer column. A number is written into the statement as a
  number: a comparison takes it as it is, and a row cannot hold it outside the range of
  the column. Text is written as a quoted literal, which the store reads as an integer;
  \<open>rd\<close> is that reading, \<open>None\<close> for text the store does not accept. A boolean is neither.
  \<open>None\<close> means that the store rejects the statement.
\<close>

definition compared_integer :: "(string \<Rightarrow> int option) \<Rightarrow> jsval \<Rightarrow> int option" where
  "compared_integer rd v = (case v of JNum n \<Rightarrow> Some n | JStr s \<Rightarrow> rd s | _ \<Rightarrow> None)"

definition stored_integer :: "(string \<Rightarrow> int option) \<Rightarrow> jsval \<Rightarrow> int option" where
  "stored_integer rd v =
     (case v of
        JNum n \<Rightarrow> if - 2147483648 \<le> n \<and> n \<le> 2147483647 then Some n else None
      | JStr s \<Rightarrow> rd s
      | _ \<Rightarrow> None)"

text \<open>\<open>SELECT id ... WHERE ... LIMIT 1\<close>: the first row that matches, if any.\<close>

definition select_first :: "(stored \<Rightarrow> bool) \<Rightarrow> stored list \<Rightarrow> nat list" where
  "select_first P t = (case find P t of Some r \<Rightarrow> [row_id r] | None \<Rightarrow> [])"

definition fresh_id :: "stored list \<Rightarrow> nat" where
  "fresh_id t = Suc (fold max (map row_id t) 0)"

text \<open>\<open>col = :param\<close> for each listed column.\<close>

definition assign_cols :: "(string \<times> jsval) list \<Rightarrow> (string \<Rightarrow> jsval) \<Rightarrow> (string \<Rightarrow> jsval)" where
  "assign_cols ps c = fold (\<lambda>p c'. c'(fst p := snd p)) ps c"

text \<open>\<open>col = COALESCE(:param, col)\<close> for each listed column.\<close>

definition coalesce_cols :: "(string \<times> jsval) list \<Rightarrow> (string \<Rightarrow> jsval) \<Rightarrow> (string \<Rightarrow> jsval)" where
  "coalesce_cols ps c = fold (\<lambda>p c'. c'(fst p := (if snd p = JNull then c' (fst p) else snd p))) ps c"

definition update_where_id :: "nat \<Rightarrow> ((string \<Rightarrow> jsval) \<Rightarrow> (string \<Rightarrow> jsval)) \<Rightarrow> stored list \<Rightarrow> stored list" where
  "update_where_id i f t = map (\<lambda>r. if row_id r = i then r\<lparr>cols := f (cols r)\<rparr> else r) t"

definition new_row :: "stored list \<Rightarrow> (string \<times> jsval) list \<Rightarrow> stored" where
  "new_row t ps = \<lparr>row_id = fresh_id t, is_deleted = False, cols = assign_cols ps (\<lambda>_. JNull)\<rparr>"

text \<open>
  What a statement does when the store runs it: the rows it returns (their ids) and the
  store afterwards, or \<open>None\<close> when the store rejects it for a replacement that an integer
  column cannot take. \<open>sql_now\<close> is the store's \<open>NOW()\<close>.
\<close>

fun run :: "(string \<Rightarrow> int option) \<Rightarrow> jsval \<Rightarrow> statement \<Rightarrow> db \<Rightarrow> (nat list \<times> db) option" where
  "run rd sql_now (SelectRisk risk_name) d =
     Some (select_first (\<lambda>r. cols r ''risk_name'' = written risk_name \<and> \<not> is_deleted r) (risks d), d)"
| "run rd sql_now (UpdateRisk i ps) d =
     Some ([], d\<lparr>risks := update_where_id i
                          (\<lambda>c. (coalesce_cols (written_all ps) c)(''updated_at'' := sql_now)) (risks d)\<rparr>)"
| "run rd sql_now (InsertRisk ps) d =
     Some ([fresh_id (risks d)], d\<lparr>risks := risks d @ [new_row (risks d) (written_all ps)]\<rparr>)"
| "run rd sql_now (InsertProjectRisk project_id risk_id) d =
     (case stored_integer rd (written project_id) of
        None \<Rightarrow> None
      | Some n \<Rightarrow> Some ([], d\<lparr>projects_risks := projects_risks d @ [(n, risk_id)]\<rparr>))"
| "run rd sql_now (InsertFrameworkRisk framework_id risk_id) d =
     (case stored_integer rd (written framework_id) of
        None \<Rightarrow> None
      | Some n \<Rightarrow> Some ([], d\<lparr>frameworks_risks := frameworks_risks d @ [(n, risk_id)]\<rparr>))"
| "run rd sql_now (SelectVendorRiskByDescription risk_description) d =
     Some (select_first (\<lambda>r. cols r ''risk_description'' = written risk_description \<and> \<not> is_deleted r)
             (vendorRisks d), d)"
| "run rd sql_now (SelectVendorRisk risk_description vendor_id) d =
     (case compared_integer rd (written vendor_id) of
        None \<Rightarrow> None
      | Some n \<Rightarrow>
          Some (select_first
                  (\<lambda>r. cols r ''risk_description'' = written risk_description \<and>
                        cols r ''vendor_id'' = JNum n \<and> \<not> is_deleted r)
                  (vendorRisks d), d))"
| "run rd sql_now (UpdateVendorRisk i ps) d =
     Some ([], d\<lparr>vendorRisks := update_where_id i
                                (\<lambda>c. (assign_cols (written_all ps) c)(''updated_at'' := sql_now)) (vendorRisks d)\<rparr>)"
| "run rd sql_now (InsertVendorRisk vendor_id ps) d =
     (case stored_integer rd (written vendor_id) of
        None \<Rightarrow> None
      | Some n \<Rightarrow>
          Some ([fresh_id (vendorRisks d)],
                d\<lparr>vendorRisks := vendorRisks d @
                     [new_row (vendorRisks d) ((''vendor_id'', JNum n) # written_all ps)]\<rparr>))"

text \<open>
  A connection is the store as the handler's statements have left it, the statements sent
  so far, and whether a statement sent on it has failed. The import handler sends all its
  statements on one transaction and sets no savepoint: once a statement has failed, the
  store answers every later statement of the transaction with an error and runs none of
  them.
\<close>

record conn =
  store :: db
  issued :: "statement list"
  aborted :: bool

text \<open>
  What the handlers of the store take from outside the module. \<open>fault n\<close> is the message of
  the error with which the store answers the \<open>n\<close>-th statement sent, if it fails there (a
  constraint of the schema, a lost connection); \<open>integer_of_text\<close> is the store's reading
  of text as an integer; \<open>rejection\<close> is its message for a statement it rejects for such a
  replacement; \<open>unbound_replacement\<close> is the message of the error \<open>sequelize.query\<close> throws
  for a named replacement whose value is \<open>undefined\<close>.
\<close>

record store_env =
  sql_now :: jsval
  iso_now :: string
  fault :: "nat \<Rightarrow> string option"
  integer_of_text :: "string \<Rightarrow> int option"
  rejection :: "statement \<Rightarrow> string"
  unbound_replacement :: "string \<Rightarrow> string"

definition in_failed_transaction :: string where
  "in_failed_transaction =
     ''current transaction is aborted, commands ignored until end of transaction block''"

text \<open>
  \<open>await sequelize.query(sql, { replacements, transaction })\<close>. A replacement without a
  value makes \<open>query\<close> throw before anything is sent. A statement that the store answers with
  an error changes nothing and leaves the transaction failed.
\<close>

definition query :: "'e store_env_scheme \<Rightarrow> statement \<Rightarrow> conn \<Rightarrow> (string + nat list) \<times> conn" where
  "query env st c =
     (case find (\<lambda>p. snd p = JUndefined) (replacements st) of
        Some p \<Rightarrow> (Inl (unbound_replacement env (fst p)), c)
      | None \<Rightarrow>
          if aborted c then
            (Inl (case fault env (length (issued c)) of Some msg \<Rightarrow> msg | None \<Rightarrow> in_failed_transaction),
             c\<lparr>issued := issued c @ [st]\<rparr>)
          else
            (case fault env (length (issued c)) of
               Some msg \<Rightarrow> (Inl msg, c\<lparr>issued := issued c @ [st], aborted := True\<rparr>)
             | None \<Rightarrow>
                 (case run (integer_of_text env) (sql_now env) st (store c) of
                    None \<Rightarrow> (Inl (rejection env st), c\<lparr>issued := issued c @ [st], aborted := True\<rparr>)
                  | Some (rs, d) \<Rightarrow>
                      (Inr rs, \<lparr>store = d, issued = issued c @ [st], aborted = False\<rparr>))))"

text \<open>Sequencing after an \<open>await\<close>: a thrown error skips the rest.\<close>

definition and_then ::
  "(string + 'a) \<times> conn \<Rightarrow> ('a \<Rightarrow> conn \<Rightarrow> (string + 'b) \<times> conn) \<Rightarrow> (string + 'b) \<times> conn" where
  "and_then r f = (case r of (Inl e, c) \<Rightarrow> (Inl e, c) | (Inr x, c) \<Rightarrow> f x c)"

text \<open>
  \<open>row.data.k\<close> on a mapped row of a request body: the string, null, or \<open>undefined\<close> when
  the row does not hold the key.
\<close>

definition get_field :: "(string \<rightharpoonup> mapped_value) \<Rightarrow> string \<Rightarrow> jsval" where
  "get_field d k = (case d k of Some (MText s) \<Rightarrow> JStr s | Some MNull \<Rightarrow> JNull | None \<Rightarrow> JUndefined)"

datatype 'a response = Success 'a | Failure nat string | Unhandled string

section \<open>Duplicate detection (POST /check-duplicates)\<close>

record duplicate_result = indexed +
  existingRiskId :: "nat option"
  existingRiskName :: "jsval"
  isDuplicate :: bool

record duplicates_summary =
  d_total :: nat
  d_duplicates :: nat
  d_unique :: nat

text \<open>
  The entry pushed for a looked-up row. \<open>existingRisk?.id || null\<close> is null for the id 0;
  the name returned by the lookup is the one the key matched, \<open>key\<close> here.
\<close>

definition duplicate_entry :: "nat \<Rightarrow> jsval \<Rightarrow> nat list \<Rightarrow> duplicate_result" where
  "duplicate_entry i key ids =
     (case ids of
        [] \<Rightarrow> \<lparr>rowIndex = i, existingRiskId = None, existingRiskName = JNull, isDuplicate = False\<rparr>
      | existing # _ \<Rightarrow>
          \<lparr>rowIndex = i, existingRiskId = (if existing = 0 then None else Some existing),
           existingRiskName = or_null key, isDuplicate = True\<rparr>)"

text \<open>The entry pushed for an invalid row.\<close>

definition passed_through :: "nat \<Rightarrow> duplicate_result" where
  "passed_through i =
     \<lparr>rowIndex = i, existingRiskId = None, existingRiskName = JNull, isDuplicate = False\<rparr>"

definition check_row ::
  "'e store_env_scheme \<Rightarrow> string \<Rightarrow> mapped_value validated_row \<Rightarrow> conn \<Rightarrow> (string + duplicate_result) \<times> conn" where
  "check_row env riskType r c =
     (if \<not> isValid r then (Inr (passed_through (rowIndex r)), c)
      else if riskType = ''project'' then
        (let riskName = get_field (data r) ''risk_name'' in
         if truthy riskName then
           and_then (query env (SelectRisk riskName) c)
             (\<lambda>ids c1. (Inr (duplicate_entry (rowIndex r) (written riskName) ids), c1))
         else (Inr (duplicate_entry (rowIndex r) riskName []), c))
      else
        (let riskDescription = get_field (data r) ''risk_description'' in
         if truthy riskDescription then
           and_then (query env (SelectVendorRiskByDescription riskDescription) c)
             (\<lambda>ids c1. (Inr (duplicate_entry (rowIndex r) (written riskDescription) ids), c1))
         else (Inr (duplicate_entry (rowIndex r) riskDescription []), c)))"

fun check_rows ::
  "'e store_env_scheme \<Rightarrow> string \<Rightarrow> mapped_value validated_row list \<Rightarrow> conn
     \<Rightarrow> (string + duplicate_result list) \<times> conn" where
  "check_rows env riskType [] c = (Inr [], c)"
| "check_rows env riskType (r # rs) c =
     and_then (check_row env riskType r c)
       (\<lambda>d c1. and_then (check_rows env riskType rs c1) (\<lambda>ds c2. (Inr (d # ds), c2)))"

definition duplicates_summary_of :: "duplicate_result list \<Rightarrow> duplicates_summary" where
  "duplicates_summary_of duplicates =
     (let duplicateCount = length (filter isDuplicate duplicates)
      in \<lparr>d_total = length duplicates, d_duplicates = duplicateCount,
          d_unique = length duplicates - duplicateCount\<rparr>)"

record 'v check_request =
  cd_tenantId :: "string option"
  cd_validatedRows :: "'v validated_row list"
  cd_riskType :: string

definition tenant_present :: "string option \<Rightarrow> bool" where
  "tenant_present t = (case t of Some s \<Rightarrow> s \<noteq> [] | None \<Rightarrow> False)"

text \<open>
  What the two handlers take from outside the module beside the store's own choices:
  \<open>sequelize_available\<close> says whether the plugin context holds a database handle; the
  three faults belong to the transaction of the import handler below.
\<close>

record handler_env = store_env +
  sequelize_available :: bool
  begin_fault :: "string option"
  commit_fault :: "string option"
  rollback_fault :: "string option"

text \<open>
  The handler: its response, and the lookups it sent to the store. It sends them outside
  any transaction and stops at the first that fails.
\<close>

definition check_duplicates ::
  "handler_env \<Rightarrow> mapped_value check_request \<Rightarrow> db
     \<Rightarrow> (duplicate_result list \<times> duplicates_summary) response \<times> statement list" where
  "check_duplicates env req d =
     (if \<not> tenant_present (cd_tenantId req) then
        (Failure 401 ''Unauthorized - tenant not found'', [])
      else if \<not> sequelize_available env then (Failure 500 ''Database not available'', [])
      else
        (case check_rows env (cd_riskType req) (cd_validatedRows req)
                \<lparr>store = d, issued = [], aborted = False\<rparr> of
           (Inl e, c) \<Rightarrow> (Failure 500 ''Duplicate check failed'', issued c)
         | (Inr duplicates, c) \<Rightarrow>
             (Success (duplicates, duplicates_summary_of duplicates), issued c)))"

section \<open>Transactional import (POST /import)\<close>

record import_result = indexed +
  success :: bool
  riskId :: "nat option"
  action :: string
  error :: "string option"

record link =
  link_type :: string
  link_id :: jsval

definition error_result :: "nat \<Rightarrow> string \<Rightarrow> import_result" where
  "error_result i msg =
     \<lparr>rowIndex = i, success = False, riskId = None, action = ''error'', error = Some msg\<rparr>"

definition ok_result :: "nat \<Rightarrow> string \<Rightarrow> nat option \<Rightarrow> import_result" where
  "ok_result i act rid = \<lparr>rowIndex = i, success = True, riskId = rid, action = act, error = None\<rparr>"

text \<open>\<open>riskData.risk_category ? `{${riskData.risk_category}}` : fallback\<close>\<close>

definition braced_category :: "(string \<rightharpoonup> mapped_value) \<Rightarrow> jsval \<Rightarrow> jsval" where
  "braced_category d fallback =
     (case d ''risk_category'' of
        Some (MText s) \<Rightarrow> if s \<noteq> [] then JStr (''{'' @ s @ ''}'') else fallback
      | _ \<Rightarrow> fallback)"

text \<open>The replacements of the project UPDATE, in the order of its SET clause.\<close>

definition project_update_params :: "(string \<rightharpoonup> mapped_value) \<Rightarrow> (string \<times> jsval) list" where
  "project_update_params d =
     [(''ai_lifecycle_phase'', or_null (get_field d ''ai_lifecycle_phase'')),
      (''risk_description'', or_null (get_field d ''risk_description'')),
      (''risk_category'', braced_category d JNull),
      (''impact'', or_null (get_field d ''impact'')),
      (''likelihood'', or_null (get_field d ''likelihood'')),
      (''severity'', or_null (get_field d ''severity'')),
      (''risk_level_autocalculated'', or_null (get_field d ''risk_level_autocalculated'')),
      (''mitigation_status'', or_null (get_field d ''mitigation_status'')),
      (''current_risk_level'', or_null (get_field d ''current_risk_level'')),
      (''mitigation_plan'', or_null (get_field d ''mitigation_plan''))]"

text \<open>
  The replacements of the project INSERT. \<open>isoNow\<close> is \<open>new Date().toISOString()\<close>. The
  name and the description go in as the row holds them, \<open>undefined\<close> when it does not.
\<close>

definition project_insert_params :: "string \<Rightarrow> (string \<rightharpoonup> mapped_value) \<Rightarrow> (string \<times> jsval) list" where
  "project_insert_params isoNow d =
     [(''risk_name'', get_field d ''risk_name''),
      (''ai_lifecycle_phase'', or_default (get_field d ''ai_lifecycle_phase'') ''Problem definition & planning''),
      (''risk_description'', get_field d ''risk_description''),
      (''risk_category'', braced_category d (JStr ''{Operational risk}'')),
      (''impact'', or_default (get_field d ''impact'') ''To be assessed''),
      (''assessment_mapping'', JStr []),
      (''controls_mapping'', JStr []),
      (''likelihood'', or_default (get_field d ''likelihood'') ''Possible''),
      (''severity'', or_default (get_field d ''severity'') ''Moderate''),
      (''risk_level_autocalculated'', or_default (get_field d ''risk_level_autocalculated'') ''Medium risk''),
      (''review_notes'', or_null (get_field d ''review_notes'')),
      (''mitigation_status'', or_default (get_field d ''mitigation_status'') ''Not Started''),
      (''current_risk_level'', or_default (get_field d ''current_risk_level'') ''Medium risk''),
      (''deadline'', or_default (get_field d ''deadline'') isoNow),
      (''mitigation_plan'', or_default (get_field d ''mitigation_plan'') ''To be defined''),
      (''implementation_strategy'', JStr []),
      (''mitigation_evidence_document'', JStr []),
      (''likelihood_mitigation'', JStr ''Possible''),
      (''risk_severity'', JStr ''Moderate''),
      (''final_risk_level'', JStr []),
      (''approval_status'', JStr ''Pending''),
      (''date_of_assessment'', JStr isoNow)]"

definition vendor_update_params :: "(string \<rightharpoonup> mapped_value) \<Rightarrow> (string \<times> jsval) list" where
  "vendor_update_params d =
     [(''impact_description'', or_null (get_field d ''impact_description'')),
      (''likelihood'', or_null (get_field d ''likelihood'')),
      (''risk_severity'', or_null (get_field d ''risk_severity'')),
      (''action_plan'', or_null (get_field d ''action_plan'')),
      (''action_owner'', or_null (get_field d ''action_owner'')),
      (''risk_level'', or_null (get_field d ''risk_level''))]"

text \<open>The replacements of the vendor INSERT after \<open>vendor_id\<close>, which is \<open>linkTo.id\<close>.\<close>

definition vendor_insert_params :: "(string \<rightharpoonup> mapped_value) \<Rightarrow> (string \<times> jsval) list" where
  "vendor_insert_params d =
     [(''risk_description'', get_field d ''risk_description''),
      (''impact_description'', or_null (get_field d ''impact_description'')),
      (''likelihood'', or_null (get_field d ''likelihood'')),
      (''risk_severity'', or_null (get_field d ''risk_severity'')),
      (''action_plan'', or_null (get_field d ''action_plan'')),
      (''action_owner'', or_null (get_field d ''action_owner'')),
      (''risk_level'', or_null (get_field d ''risk_level''))]"

text \<open>\<open>linkTo?.type === t && linkTo.id\<close>\<close>

definition linked_as :: "link option \<Rightarrow> string \<Rightarrow> bool" where
  "linked_as linkTo t = (case linkTo of Some l \<Rightarrow> link_type l = t \<and> truthy (link_id l) | None \<Rightarrow> False)"

text \<open>\<open>linkTo.id\<close>, read where \<open>linkTo\<close> is known to be present.\<close>

definition link_id_of :: "link option \<Rightarrow> jsval" where
  "link_id_of linkTo = (case linkTo of Some l \<Rightarrow> link_id l | None \<Rightarrow> JUndefined)"

text \<open>\<open>insertResult[0][0].id\<close>: reading \<open>id\<close> of no row throws a TypeError.\<close>

definition returned_id :: "nat list \<Rightarrow> conn \<Rightarrow> (string + nat) \<times> conn" where
  "returned_id ids c =
     (case ids of
        [] \<Rightarrow> (Inl ''Cannot read properties of undefined (reading id)'', c)
      | i # _ \<Rightarrow> (Inr i, c))"

text \<open>The create path of a project row: the INSERT, then the link rows.\<close>

definition create_project ::
  "'e store_env_scheme \<Rightarrow> link option \<Rightarrow> mapped_value validated_row \<Rightarrow> conn \<Rightarrow> (string + import_result) \<times> conn" where
  "create_project env linkTo r c =
     and_then (query env (InsertRisk (project_insert_params (iso_now env) (data r))) c) (\<lambda>ids c1.
     and_then (returned_id ids c1) (\<lambda>newRiskId c2.
     and_then (if linked_as linkTo ''project''
               then query env (InsertProjectRisk (link_id_of linkTo) newRiskId) c2
               else (Inr [], c2)) (\<lambda>_ c3.
     and_then (if linked_as linkTo ''framework''
               then query env (InsertFrameworkRisk (link_id_of linkTo) newRiskId) c3
               else (Inr [], c3)) (\<lambda>_ c4.
     (Inr (ok_result (rowIndex r) ''created'' (Some newRiskId)), c4)))))"

definition try_project ::
  "'e store_env_scheme \<Rightarrow> link option \<Rightarrow> string \<Rightarrow> mapped_value validated_row \<Rightarrow> conn \<Rightarrow> (string + import_result) \<times> conn" where
  "try_project env linkTo duplicateAction r c =
     (if duplicateAction = ''overwrite'' \<and> truthy (get_field (data r) ''risk_name'') then
        and_then (query env (SelectRisk (get_field (data r) ''risk_name'')) c) (\<lambda>existingResult c1.
          case existingResult of
            existingId # _ \<Rightarrow>
              and_then (query env (UpdateRisk existingId (project_update_params (data r))) c1) (\<lambda>_ c2.
                (Inr (ok_result (rowIndex r) ''overwritten'' (Some existingId)), c2))
          | [] \<Rightarrow> create_project env linkTo r c1)
      else create_project env linkTo r c)"

definition create_vendor ::
  "'e store_env_scheme \<Rightarrow> link option \<Rightarrow> mapped_value validated_row \<Rightarrow> conn \<Rightarrow> (string + import_result) \<times> conn" where
  "create_vendor env linkTo r c =
     and_then (query env (InsertVendorRisk (link_id_of linkTo) (vendor_insert_params (data r))) c) (\<lambda>ids c1.
     and_then (returned_id ids c1) (\<lambda>newRiskId c2.
     (Inr (ok_result (rowIndex r) ''created'' (Some newRiskId)), c2)))"

definition try_vendor ::
  "'e store_env_scheme \<Rightarrow> link option \<Rightarrow> string \<Rightarrow> mapped_value validated_row \<Rightarrow> conn \<Rightarrow> (string + import_result) \<times> conn" where
  "try_vendor env linkTo duplicateAction r c =
     (if \<not> linked_as linkTo ''vendor'' then
        (Inr (error_result (rowIndex r) ''Vendor must be selected for vendor risk import''), c)
      else if duplicateAction = ''overwrite'' \<and> truthy (get_field (data r) ''risk_description'') then
        and_then (query env (SelectVendorRisk (get_field (data r) ''risk_description'') (link_id_of linkTo)) c)
          (\<lambda>existingResult c1.
             case existingResult of
               existingId # _ \<Rightarrow>
                 and_then (query env (UpdateVendorRisk existingId (vendor_update_params (data r))) c1) (\<lambda>_ c2.
                   (Inr (ok_result (rowIndex r) ''overwritten'' (Some existingId)), c2))
             | [] \<Rightarrow> create_vendor env linkTo r c1)
      else create_vendor env linkTo r c)"

text \<open>The body of the inner \<open>try\<close>: \<open>Inl\<close> is the message of an error thrown in it.\<close>

definition try_row ::
  "'e store_env_scheme \<Rightarrow> string \<Rightarrow> link option \<Rightarrow> string \<Rightarrow> mapped_value validated_row \<Rightarrow> conn \<Rightarrow> (string + import_result) \<times> conn" where
  "try_row env riskType linkTo duplicateAction r c =
     (if riskType = ''project'' then try_project env linkTo duplicateAction r c
      else try_vendor env linkTo duplicateAction r c)"

text \<open>\<open>duplicateActions[row.rowIndex] || "create"\<close>\<close>

definition resolve_action :: "(nat \<rightharpoonup> string) \<Rightarrow> nat \<Rightarrow> string" where
  "resolve_action duplicateActions i =
     (case duplicateActions i of Some a \<Rightarrow> if a \<noteq> [] then a else ''create'' | None \<Rightarrow> ''create'')"

text \<open>One turn of the loop over \<open>validatedRows\<close>: the result pushed, and the connection.\<close>

definition process_row ::
  "'e store_env_scheme \<Rightarrow> string \<Rightarrow> link option \<Rightarrow> (nat \<rightharpoonup> string) \<Rightarrow> mapped_value validated_row \<Rightarrow> conn \<Rightarrow> import_result \<times> conn" where
  "process_row env riskType linkTo duplicateActions r c =
     (if \<not> isValid r then (error_result (rowIndex r) (join ''; '' (errors r)), c)
      else if resolve_action duplicateActions (rowIndex r) = ''skip'' then
        (ok_result (rowIndex r) ''skipped'' None, c)
      else
        (case try_row env riskType linkTo (resolve_action duplicateActions (rowIndex r)) r c of
           (Inl msg, c1) \<Rightarrow> (error_result (rowIndex r) msg, c1)
         | (Inr res, c1) \<Rightarrow> (res, c1)))"

fun import_rows ::
  "'e store_env_scheme \<Rightarrow> string \<Rightarrow> link option \<Rightarrow> (nat \<rightharpoonup> string) \<Rightarrow> mapped_value validated_row list \<Rightarrow> conn
     \<Rightarrow> import_result list \<times> conn" where
  "import_rows env riskType linkTo duplicateActions [] c = ([], c)"
| "import_rows env riskType linkTo duplicateActions (r # rs) c =
     (case process_row env riskType linkTo duplicateActions r c of
        (res, c1) \<Rightarrow>
          (case import_rows env riskType linkTo duplicateActions rs c1 of
             (ress, c2) \<Rightarrow> (res # ress, c2)))"

record import_summary =
  s_total :: nat
  s_success :: nat
  s_created :: nat
  s_overwritten :: nat
  s_skipped :: nat
  s_errors :: nat

definition import_summary_of :: "import_result list \<Rightarrow> import_summary" where
  "import_summary_of results =
     \<lparr>s_total = length results,
      s_success = length (filter success results),
      s_created = length (filter (\<lambda>r. action r = ''created'') results),
      s_overwritten = length (filter (\<lambda>r. action r = ''overwritten'') results),
      s_skipped = length (filter (\<lambda>r. action r = ''skipped'') results),
      s_errors = length (filter (\<lambda>r. action r = ''error'') results)\<rparr>"

record import_request =
  tenantId :: "string option"
  validatedRows :: "mapped_value validated_row list"
  duplicateActions :: "nat \<rightharpoonup> string"
  riskType :: string
  linkTo :: "link option"

text \<open>
  The handler, on the store \<open>d\<close> as committed before the request; it returns the response
  and the store as committed after it. The statements run on the transaction's view of the
  store; \<open>commit\<close> makes that view the committed store, and a transaction that is rolled
  back, or never committed, leaves the committed store as it was. The store ends a failed
  transaction at \<open>COMMIT\<close> by rolling it back, without an error: \<open>commit\<close> returns, the
  handler answers with its results, and nothing is persisted. \<open>begin_fault\<close>,
  \<open>commit_fault\<close> and \<open>rollback_fault\<close> are the errors \<open>sequelize.transaction()\<close>,
  \<open>transaction.commit()\<close> and \<open>transaction.rollback()\<close> throw, if they throw. An error
  thrown outside every \<open>try\<close>, or inside a \<open>catch\<close>, leaves the request without a
  response.
\<close>

definition rolled_back :: "handler_env \<Rightarrow> 'a response \<Rightarrow> 'a response" where
  "rolled_back env resp = (case rollback_fault env of Some e \<Rightarrow> Unhandled e | None \<Rightarrow> resp)"

definition import_handler ::
  "handler_env \<Rightarrow> import_request \<Rightarrow> db \<Rightarrow> (import_result list \<times> import_summary) response \<times> db" where
  "import_handler env req d =
     (if \<not> sequelize_available env then (Failure 500 ''Database not available'', d)
      else case begin_fault env of
        Some e \<Rightarrow> (Unhandled e, d)
      | None \<Rightarrow>
          if \<not> tenant_present (tenantId req) then
            (rolled_back env (Failure 401 ''Unauthorized - tenant not found''), d)
          else
            (case import_rows env (riskType req) (linkTo req) (duplicateActions req)
                    (validatedRows req) \<lparr>store = d, issued = [], aborted = False\<rparr> of
               (results, c) \<Rightarrow>
                 (case commit_fault env of
                    Some e \<Rightarrow> (rolled_back env (Failure 500 (''Import failed: '' @ e)), d)
                  | None \<Rightarrow>
                      (Success (results, import_summary_of results),
                       if aborted c then d else store c))))"

section \<open>File decoding (POST /parse)\<close>

text \<open>
  \<open>XLSX.utils.sheet_to_json(sheet, { header: 1 })\<close> gives the first sheet as an array of
  rows, each an array of cells. A cell is a string, a number or a boolean, or null for an
  error value; a blank cell is a hole in its row (\<open>None\<close>). A number is held as the text
  \<open>String\<close> gives for it, in digits or in exponent notation as the engine writes it: the
  handler reads nothing else of a number but whether it is falsy, and the falsy numbers
  are those written \<open>0\<close> (zero of either sign) and \<open>NaN\<close>.
\<close>

datatype cell = CStr string | CNum string | CBool bool | CNull

text \<open>
  The decimal text of a natural number, for the size limit in the message of the size
  check. \<open>String\<close> writes a number in digits below \<open>10^21\<close>; with a limit from there on the
  check cannot fail, a buffer being shorter than \<open>2^53\<close> bytes.
\<close>

definition digit_char :: "nat \<Rightarrow> char" where
  "digit_char k = ''0123456789'' ! k"

fun number_digits :: "nat \<Rightarrow> string \<Rightarrow> string" where
  "number_digits n acc =
     (if n < 10 then digit_char n # acc
      else number_digits (n div 10) (digit_char (n mod 10) # acc))"

text \<open>\<open>String(v)\<close> on a cell.\<close>

fun cell_string :: "cell \<Rightarrow> string" where
  "cell_string (CStr s) = s"
| "cell_string (CNum t) = t"
| "cell_string (CBool b) = (if b then ''true'' else ''false'')"
| "cell_string CNull = ''null''"

fun cell_truthy :: "cell \<Rightarrow> bool" where
  "cell_truthy (CStr s) = (s \<noteq> [])"
| "cell_truthy (CNum t) = (t \<noteq> ''0'' \<and> t \<noteq> ''NaN'')"
| "cell_truthy (CBool b) = b"
| "cell_truthy CNull = False"

text \<open>
  The white space and the line terminators of ECMAScript, each as its UTF-8 bytes: tab,
  line feed, vertical tab, form feed, carriage return, space, U+00A0, U+1680, U+2000 to
  U+200A, U+2028, U+2029, U+202F, U+205F, U+3000 and U+FEFF.
\<close>

definition white_space :: "string list" where
  "white_space =
     [[CHR 0x09], [CHR 0x0A], [CHR 0x0B], [CHR 0x0C], [CHR 0x0D], [CHR 0x20],
      [CHR 0xC2, CHR 0xA0],
      [CHR 0xE1, CHR 0x9A, CHR 0x80],
      [CHR 0xE2, CHR 0x80, CHR 0x80], [CHR 0xE2, CHR 0x80, CHR 0x81], [CHR 0xE2, CHR 0x80, CHR 0x82],
      [CHR 0xE2, CHR 0x80, CHR 0x83], [CHR 0xE2, CHR 0x80, CHR 0x84], [CHR 0xE2, CHR 0x80, CHR 0x85],
      [CHR 0xE2, CHR 0x80, CHR 0x86], [CHR 0xE2, CHR 0x80, CHR 0x87], [CHR 0xE2, CHR 0x80, CHR 0x88],
      [CHR 0xE2, CHR 0x80, CHR 0x89], [CHR 0xE2, CHR 0x80, CHR 0x8A],
      [CHR 0xE2, CHR 0x80, CHR 0xA8], [CHR 0xE2, CHR 0x80, CHR 0xA9], [CHR 0xE2, CHR 0x80, CHR 0xAF],
      [CHR 0xE2, CHR 0x81, CHR 0x9F],
      [CHR 0xE3, CHR 0x80, CHR 0x80],
      [CHR 0xEF, CHR 0xBB, CHR 0xBF]]"

text \<open>What is left of a text when the members of \<open>ws\<close> it begins with are taken off.\<close>

function strip :: "string list \<Rightarrow> string \<Rightarrow> string" where
  "strip ws s =
     (case find (\<lambda>w. w \<noteq> [] \<and> take (length w) s = w) ws of
        Some w \<Rightarrow> strip ws (drop (length w) s)
      | None \<Rightarrow> s)"
  by pat_completeness auto
termination
proof (relation "measure (\<lambda>(ws, s). length s)")
  show "wf (measure (\<lambda>(ws, s). length s))" by simp
next
  fix ws :: "string list" and s w :: string
  assume "find (\<lambda>w. w \<noteq> [] \<and> take (length w) s = w) ws = Some w"
  then have "w \<noteq> []" and t: "take (length w) s = w"
    by (auto simp: find_Some_iff)
  from arg_cong[OF t, of length] have "length w \<le> length s"
    by simp
  with \<open>w \<noteq> []\<close> show "((ws, drop (length w) s), (ws, s)) \<in> measure (\<lambda>(ws, s). length s)"
    by (cases w) simp_all
qed

text \<open>\<open>s.trim()\<close>: the white space at the start goes, then the white space at the end.\<close>

definition trim :: "string \<Rightarrow> string" where
  "trim s = rev (strip (map rev white_space) (rev (strip white_space s)))"

text \<open>\<open>String(h || "").trim()\<close>, under \<open>map\<close>, which leaves a hole a hole.\<close>

definition header_text :: "cell \<Rightarrow> string" where
  "header_text h = trim (if cell_truthy h then cell_string h else [])"

text \<open>
  \<open>String(row[colIndex] ?? "").trim()\<close>: a hole, or an index past the row, is \<open>undefined\<close>,
  and \<open>??\<close> replaces \<open>undefined\<close> and null.
\<close>

definition cell_text :: "cell option list \<Rightarrow> nat \<Rightarrow> string" where
  "cell_text r colIndex =
     (if colIndex < length r
      then (case r ! colIndex of
              Some CNull \<Rightarrow> []
            | Some v \<Rightarrow> trim (cell_string v)
            | None \<Rightarrow> [])
      else [])"

text \<open>\<open>headers.forEach((header, colIndex) => { data[header] = ... })\<close>; \<open>forEach\<close> skips holes.\<close>

definition row_data :: "string option list \<Rightarrow> cell option list \<Rightarrow> (string \<rightharpoonup> string)" where
  "row_data headers r =
     fold (\<lambda>(colIndex, h) d. case h of Some header \<Rightarrow> js_set d header (cell_text r colIndex) | None \<Rightarrow> d)
          (enumerate 0 headers) Map.empty"

text \<open>\<open>Object.values(row.data).some((value) => value.length > 0)\<close>\<close>

definition has_value :: "string option list \<Rightarrow> (string \<rightharpoonup> string) \<Rightarrow> bool" where
  "has_value headers d =
     list_ex (\<lambda>h. case h of
                    Some header \<Rightarrow> (case d header of Some v \<Rightarrow> length v > 0 | None \<Rightarrow> False)
                  | None \<Rightarrow> False) headers"

definition parse_rows :: "string option list \<Rightarrow> cell option list list \<Rightarrow> string row list" where
  "parse_rows headers rest =
     filter (\<lambda>r. has_value headers (data r))
       (map (\<lambda>(index, r). \<lparr>rowIndex = index + 2, data = row_data headers r\<rparr>) (enumerate 0 rest))"

record parse_data =
  columns :: "string option list"
  rowCount :: nat
  preview :: "string row list"
  allRows :: "string row list"

text \<open>
  What the handler takes from outside the module: the two configuration values, the length
  of \<open>Buffer.from(fileContent, "base64")\<close> for a content that is a string,
  \<open>path.extname(fileName).toLowerCase()\<close>, and what \<open>XLSX.read\<close> followed by
  \<open>sheet_to_json\<close> gives for the upload: the rows of the first sheet, or the error thrown.
  For a content that is a number or a boolean \<open>Buffer.from\<close> throws, and the handler's
  \<open>catch\<close> answers as for a file it cannot read.
\<close>

record parse_env =
  maxFileSizeMB :: nat
  previewRowCount :: nat
  buffer_length :: nat
  extension :: string
  rawData :: "string + cell option list list"

record parse_request =
  fileContent :: jsval
  fileName :: jsval

definition is_nonempty_string :: "jsval \<Rightarrow> bool" where
  "is_nonempty_string v = (case v of JStr s \<Rightarrow> s \<noteq> [] | _ \<Rightarrow> False)"

definition decode_sheet :: "parse_env \<Rightarrow> cell option list list \<Rightarrow> parse_data response" where
  "decode_sheet env raw =
     (case raw of
        [] \<Rightarrow> Failure 400 ''File is empty''
      | first # rest \<Rightarrow>
          (let headers = map (map_option header_text) first;
               rows = parse_rows headers rest
           in Success \<lparr>columns = headers, rowCount = length rows,
                       preview = take (previewRowCount env) rows, allRows = rows\<rparr>))"

definition parse :: "parse_env \<Rightarrow> parse_request \<Rightarrow> parse_data response" where
  "parse env req =
     (if \<not> truthy (fileContent req) then Failure 400 ''No file content provided''
      else if \<not> is_nonempty_string (fileName req) then Failure 400 ''File name is required''
      else if \<not> is_nonempty_string (fileContent req) then Failure 500 ''Failed to parse file''
      else if buffer_length env > maxFileSizeMB env * 1024 * 1024 then
        Failure 400 (''File size exceeds '' @ number_digits (maxFileSizeMB env) [] @ ''MB limit'')
      else if extension env \<notin> {''.csv'', ''.xlsx'', ''.xls''} then
        Failure 400 ''Unsupported file format. Please upload a CSV or Excel file.''
      else
        (case rawData env of
           Inl e \<Rightarrow> Failure 500 ''Failed to parse file''
         | Inr raw \<Rightarrow> decode_sheet env raw))"

section \<open>Auxiliary notions\<close>

text \<open>
  An import result is well formed for a row index when it carries that index, its action is
  one of the four the handler pushes, and its \<open>success\<close> flag agrees with the action.
\<close>

definition well_formed :: "nat \<Rightarrow> import_result \<Rightarrow> bool" where
  "well_formed i res =
     (rowIndex res = i \<and> action res \<in> {''created'', ''overwritten'', ''skipped'', ''error''} \<and>
      (success res \<longleftrightarrow> action res \<noteq> ''error''))"

section \<open>Example requests\<close>

text \<open>
  Concrete environments, stores, rows and requests, on which the theorems below are
  instantiated.
\<close>

text \<open>
  Decimal text read as an integer, as the store reads it: blanks around it, a sign, digits,
  within the range of a 32-bit integer.
\<close>

definition digit_value :: "char \<Rightarrow> nat option" where
  "digit_value ch =
     (let k = of_char ch in if (48::nat) \<le> k \<and> k \<le> 57 then Some (k - 48) else None)"

fun digits_value :: "string \<Rightarrow> nat \<Rightarrow> nat option" where
  "digits_value [] acc = Some acc"
| "digits_value (ch # cs) acc =
     (case digit_value ch of None \<Rightarrow> None | Some k \<Rightarrow> digits_value cs (10 * acc + k))"

definition blank :: "char \<Rightarrow> bool" where
  "blank ch = (of_char ch \<in> {9, 10, 11, 12, 13, 32 :: nat})"

definition decimal_integer :: "string \<Rightarrow> int option" where
  "decimal_integer s =
     (let t = rev (dropWhile blank (rev (dropWhile blank s)));
          signed = (take 1 t = ''-'' \<or> take 1 t = ''+'');
          ds = (if signed then drop 1 t else t)
      in if ds = [] then None
         else case digits_value ds 0 of
                None \<Rightarrow> None
              | Some n \<Rightarrow>
                  (let v = (if take 1 t = ''-'' then - int n else int n)
                   in if - 2147483648 \<le> v \<and> v \<le> 2147483647 then Some v else None))"

definition ex_env :: handler_env where
  "ex_env =
     \<lparr>sql_now = JStr ''2026-01-01 00:00:00+00'', iso_now = ''2026-01-01T00:00:00.000Z'',
      fault = (\<lambda>n. None), integer_of_text = decimal_integer,
      rejection = (\<lambda>st. ''invalid input syntax for type integer''),
      unbound_replacement = (\<lambda>n. ''Named parameter :'' @ n @ '' has no value in the given object.''),
      sequelize_available = True, begin_fault = None,
      commit_fault = None, rollback_fault = None\<rparr>"

text \<open>
  A store that lets no two risks have one name: sent the requests below, it rejects the
  second statement.
\<close>

definition ex_failing_env :: handler_env where
  "ex_failing_env =
     ex_env\<lparr>fault := (\<lambda>n. if n = 1 then Some ''duplicate key value violates unique constraint'' else None)\<rparr>"

definition ex_empty_db :: db where
  "ex_empty_db = \<lparr>risks = [], vendorRisks = [], projects_risks = [], frameworks_risks = []\<rparr>"

definition ex_project_db :: db where
  "ex_project_db =
     \<lparr>risks = [\<lparr>row_id = 5, is_deleted = False,
                 cols = assign_cols [(''risk_name'', JStr ''Data leak''), (''impact'', JStr ''Fines'')] (\<lambda>_. JNull)\<rparr>],
      vendorRisks = [], projects_risks = [], frameworks_risks = []\<rparr>"

definition ex_vendor_db :: db where
  "ex_vendor_db =
     \<lparr>risks = [],
      vendorRisks = [\<lparr>row_id = 1, is_deleted = False,
                       cols = assign_cols [(''vendor_id'', JNum 7), (''risk_description'', JStr ''Late delivery''),
                                           (''impact_description'', JStr ''Penalty fees'')] (\<lambda>_. JNull)\<rparr>],
      projects_risks = [], frameworks_risks = []\<rparr>"

definition ex_row_outage :: "mapped_value validated_row" where
  "ex_row_outage =
     \<lparr>rowIndex = 2,
      data = [''risk_name'' \<mapsto> MText ''Server outage'', ''risk_description'' \<mapsto> MText ''DB unreachable''],
      isValid = True, errors = []\<rparr>"

definition ex_row_leak :: "mapped_value validated_row" where
  "ex_row_leak =
     \<lparr>rowIndex = 3,
      data = [''risk_name'' \<mapsto> MText ''Data leak'', ''risk_description'' \<mapsto> MText ''Exposed bucket''],
      isValid = True, errors = []\<rparr>"

definition ex_row_invalid :: "mapped_value validated_row" where
  "ex_row_invalid =
     \<lparr>rowIndex = 4, data = [''risk_name'' \<mapsto> MNull, ''risk_description'' \<mapsto> MText ''No name given''],
      isValid = False, errors = [''Risk name is required'']\<rparr>"

definition ex_row_phishing :: "mapped_value validated_row" where
  "ex_row_phishing =
     \<lparr>rowIndex = 4,
      data = [''risk_name'' \<mapsto> MText ''Phishing'', ''risk_description'' \<mapsto> MText ''Credential theft''],
      isValid = True, errors = []\<rparr>"

definition ex_row_vendor :: "mapped_value validated_row" where
  "ex_row_vendor =
     \<lparr>rowIndex = 2,
      data = [''risk_description'' \<mapsto> MText ''Late delivery'', ''likelihood'' \<mapsto> MText ''Likely''],
      isValid = True, errors = []\<rparr>"

definition ex_row_breach :: "mapped_value validated_row" where
  "ex_row_breach =
     \<lparr>rowIndex = 3,
      data = [''risk_description'' \<mapsto> MText ''Breach at the vendor'', ''likelihood'' \<mapsto> MText ''Possible''],
      isValid = True, errors = []\<rparr>"

definition ex_vendor_link :: link where
  "ex_vendor_link = \<lparr>link_type = ''vendor'', link_id = JNum 7\<rparr>"

text \<open>The link of a request that names the vendor by text.\<close>

definition ex_text_link :: link where
  "ex_text_link = \<lparr>link_type = ''vendor'', link_id = JStr ''7''\<rparr>"

text \<open>Three valid project rows, each to be created.\<close>

definition ex_batch_request :: import_request where
  "ex_batch_request =
     \<lparr>tenantId = Some ''tenant_a'', validatedRows = [ex_row_outage, ex_row_leak, ex_row_phishing],
      duplicateActions = Map.empty, riskType = ''project'', linkTo = None\<rparr>"

text \<open>
  Three valid project rows, the first and the last to overwrite the stored risk of their
  name, the second to be created and linked to a project whose id is no number.
\<close>

definition ex_linked_request :: import_request where
  "ex_linked_request =
     \<lparr>tenantId = Some ''tenant_a'',
      validatedRows = [ex_row_leak, ex_row_phishing, ex_row_leak\<lparr>rowIndex := 5\<rparr>],
      duplicateActions = [3 \<mapsto> ''overwrite'', 5 \<mapsto> ''overwrite''], riskType = ''project'',
      linkTo = Some \<lparr>link_type = ''project'', link_id = JStr ''abc''\<rparr>\<rparr>"

definition ex_import_request :: import_request where
  "ex_import_request =
     \<lparr>tenantId = Some ''tenant_a'', validatedRows = [ex_row_outage, ex_row_leak, ex_row_invalid],
      duplicateActions = [3 \<mapsto> ''overwrite''], riskType = ''project'', linkTo = None\<rparr>"

definition ex_vendor_overwrite_request :: import_request where
  "ex_vendor_overwrite_request =
     \<lparr>tenantId = Some ''tenant_a'', validatedRows = [ex_row_vendor],
      duplicateActions = [2 \<mapsto> ''overwrite''], riskType = ''vendor'', linkTo = Some ex_vendor_link\<rparr>"

definition ex_check_request :: "mapped_value check_request" where
  "ex_check_request =
     \<lparr>cd_tenantId = Some ''tenant_a'', cd_validatedRows = [ex_row_invalid], cd_riskType = ''project''\<rparr>"

definition ex_parse_env :: "cell option list list \<Rightarrow> parse_env" where
  "ex_parse_env raw =
     \<lparr>maxFileSizeMB = 10, previewRowCount = 5, buffer_length = 10, extension = ''.csv'',
      rawData = Inr raw\<rparr>"

text \<open>
  A sheet of a header row and four rows after it: a row of a no-break space and a blank
  cell, a row with a name, a row of a blank cell and an error value, and a row with a
  number. A sheet whose rows after the header hold white space and nothing.
\<close>

definition ex_sheet :: "cell option list list" where
  "ex_sheet =
     [[Some (CStr '' Risk name ''), Some (CStr ''Owner'')],
      [Some (CStr [CHR 0xC2, CHR 0xA0]), None],
      [Some (CStr ''Server outage'')],
      [None, Some CNull],
      [None, Some (CNum ''1e+21'')]]"

definition ex_blank_sheet :: "cell option list list" where
  "ex_blank_sheet = [[Some (CStr ''Risk name'')], [Some (CStr ''  '')], []]"

definition ex_parse_request :: parse_request where
  "ex_parse_request = \<lparr>fileContent = JStr ''UmlzayBuYW1l'', fileName = JStr ''risks.csv''\<rparr>"

definition ex_validate_env :: validate_env where
  "ex_validate_env = \<lparr>autoCalculateRiskLevel = True, parse_date = (\<lambda>v. None)\<rparr>"

definition ex_vendor_mapping :: "mapping_entry list" where
  "ex_vendor_mapping =
     [\<lparr>sourceColumn = ''Description'', targetField = ''risk_description''\<rparr>,
      \<lparr>sourceColumn = ''Likelihood'', targetField = ''likelihood''\<rparr>,
      \<lparr>sourceColumn = ''Severity'', targetField = ''risk_severity''\<rparr>]"

definition ex_parsed_vendor_row :: "string row" where
  "ex_parsed_vendor_row =
     \<lparr>rowIndex = 2, data = [''Description'' \<mapsto> ''Late delivery'', ''Likelihood'' \<mapsto> ''Likely'',
                             ''Severity'' \<mapsto> ''Moderate'']\<rparr>"

definition ex_level_mapping :: "mapping_entry list" where
  "ex_level_mapping =
     [\<lparr>sourceColumn = ''Likelihood'', targetField = ''likelihood''\<rparr>,
      \<lparr>sourceColumn = ''Severity'', targetField = ''severity''\<rparr>]"

definition ex_parsed_odd_row :: "string row" where
  "ex_parsed_odd_row =
     \<lparr>rowIndex = 2, data = [''Likelihood'' \<mapsto> ''constructor'', ''Severity'' \<mapsto> ''name'']\<rparr>"

section \<open>Lemmas about the model\<close>

lemmas ex_defs = ex_env_def ex_failing_env_def ex_empty_db_def ex_project_db_def ex_vendor_db_def
  ex_row_outage_def ex_row_leak_def ex_row_invalid_def ex_row_vendor_def ex_vendor_link_def
  ex_row_phishing_def ex_row_breach_def ex_text_link_def ex_batch_request_def ex_linked_request_def
  ex_import_request_def ex_vendor_overwrite_request_def ex_check_request_def ex_parse_env_def
  ex_parse_request_def ex_validate_env_def ex_vendor_mapping_def ex_parsed_vendor_row_def
  ex_level_mapping_def ex_parsed_odd_row_def ex_sheet_def ex_blank_sheet_def

lemmas import_defs = import_handler_def rolled_back_def tenant_present_def process_row_def
  resolve_action_def try_row_def try_project_def try_vendor_def create_project_def create_vendor_def
  and_then_def query_def returned_id_def linked_as_def link_id_of_def get_field_def or_null_def
  or_default_def braced_category_def project_insert_params_def project_update_params_def
  vendor_insert_params_def vendor_update_params_def select_first_def fresh_id_def new_row_def
  assign_cols_def coalesce_cols_def update_where_id_def error_result_def ok_result_def
  import_summary_of_def join.simps compared_integer_def stored_integer_def in_failed_transaction_def
  written_def written_all_def literal_text_def

lemma calculateRiskLevel_falsy:
  "\<not> truthy l \<or> \<not> truthy s \<Longrightarrow> calculateRiskLevel l s = Some JNull"
  by (auto simp: calculateRiskLevel_def)

lemma vendor_lookup:
  assumes "l \<in> set [''Very likely'', ''Likely'', ''Possible'', ''Unlikely'', ''Rare'']"
      and "s \<in> set [''Very high'', ''High'', ''Moderate'', ''Low'', ''Very low'']"
  shows "calculateRiskLevel (JStr l) (JStr s) =
           Some (if s = ''Moderate'' then
                   (if l = ''Likely'' then JStr ''High risk''
                    else if l = ''Possible'' then JStr ''Medium risk''
                    else if l = ''Unlikely'' then JStr ''Low risk''
                    else if l = ''Rare'' then JStr ''Very low risk''
                    else JNull)
                 else JNull)"
proof -
  from assms(1) have L: "l = ''Very likely'' \<or> l = ''Likely'' \<or> l = ''Possible'' \<or> l = ''Unlikely'' \<or> l = ''Rare''"
    by simp
  from assms(2) have S: "s = ''Very high'' \<or> s = ''High'' \<or> s = ''Moderate'' \<or> s = ''Low'' \<or> s = ''Very low''"
    by simp
  from L S show ?thesis
    by (elim disjE; hypsubst; simp add: calculateRiskLevel_def matrix_cell_def RISK_MATRIX_def js_get_def
        object_prototype_names_def or_null_def)
qed

lemma vendor_no_dates: "check_dates env VENDOR_RISK_FIELDS st = st"
  by (simp add: check_dates_def VENDOR_RISK_FIELDS_def mk_field_def)

lemma vendor_enum_ok:
  assumes "enum_errors VENDOR_RISK_FIELDS md = []"
  shows "(\<not> truthy (js_get md ''likelihood'') \<or>
          (\<exists>l \<in> set [''Very likely'', ''Likely'', ''Possible'', ''Unlikely'', ''Rare'']. js_get md ''likelihood'' = JStr l))
       \<and> (\<not> truthy (js_get md ''risk_severity'') \<or>
          (\<exists>s \<in> set [''Very high'', ''High'', ''Moderate'', ''Low'', ''Very low'']. js_get md ''risk_severity'' = JStr s))"
proof -
  from assms have a: "\<not> enum_violation md (VENDOR_RISK_FIELDS ! 2)" and b: "\<not> enum_violation md (VENDOR_RISK_FIELDS ! 3)"
    by (simp_all add: enum_errors_def VENDOR_RISK_FIELDS_def mk_field_def split: if_splits)
  from a b show ?thesis
    by (auto simp: enum_violation_def VENDOR_RISK_FIELDS_def mk_field_def js_includes_def split: jsval.splits)
qed

lemma fold_mapping_untargeted:
  "\<forall>m\<in>set mapping. targetField m \<noteq> k \<Longrightarrow>
   fold (\<lambda>m md. js_set md (targetField m) (f m)) mapping md0 k = md0 k"
  by (induction mapping arbitrary: md0) (auto simp: js_set_def)

lemma apply_mapping_untargeted:
  "\<forall>m\<in>set mapping. targetField m \<noteq> k \<Longrightarrow> apply_mapping mapping d k = None"
  unfolding apply_mapping_def by (simp add: fold_mapping_untargeted)

lemma and_then_Inr:
  "and_then m f = (Inr x, c) \<Longrightarrow> \<exists>y c1. m = (Inr y, c1) \<and> f y c1 = (Inr x, c)"
  by (auto simp: and_then_def split: prod.splits sum.splits)

lemma and_then_simps [simp]:
  "and_then (Inl e, c) f = (Inl e, c)"
  "and_then (Inr x, c) f = f x c"
  by (simp_all add: and_then_def)

lemma create_project_Inr:
  assumes "create_project env l r c = (Inr res, c')"
  shows "\<exists>i. res = ok_result (rowIndex r) ''created'' (Some i)"
  using assms unfolding create_project_def
  by (auto dest!: and_then_Inr)

lemma create_vendor_Inr:
  assumes "create_vendor env l r c = (Inr res, c')"
  shows "\<exists>i. res = ok_result (rowIndex r) ''created'' (Some i)"
  using assms unfolding create_vendor_def
  by (auto dest!: and_then_Inr)

lemma try_project_Inr:
  assumes "try_project env l a r c = (Inr res, c')"
  shows "\<exists>i. res = ok_result (rowIndex r) ''created'' (Some i) \<or> res = ok_result (rowIndex r) ''overwritten'' (Some i)"
  using assms unfolding try_project_def
  by (auto dest!: and_then_Inr create_project_Inr split: if_splits list.splits)

lemma try_vendor_Inr:
  assumes "try_vendor env l a r c = (Inr res, c')"
  shows "(\<exists>i. res = ok_result (rowIndex r) ''created'' (Some i) \<or> res = ok_result (rowIndex r) ''overwritten'' (Some i))
         \<or> res = error_result (rowIndex r) ''Vendor must be selected for vendor risk import''"
  using assms unfolding try_vendor_def
  by (auto dest!: and_then_Inr create_vendor_Inr split: if_splits list.splits)

lemma well_formed_results [simp]:
  "well_formed i (error_result i msg)"
  "well_formed i (ok_result i ''created'' x)"
  "well_formed i (ok_result i ''overwritten'' x)"
  "well_formed i (ok_result i ''skipped'' x)"
  by (simp_all add: well_formed_def error_result_def ok_result_def)

lemma process_row_well_formed:
  "well_formed (rowIndex r) (fst (process_row env rt l da r c))"
proof -
  { fix res c' assume "try_row env rt l (resolve_action da (rowIndex r)) r c = (Inr res, c')"
    then have "well_formed (rowIndex r) res"
      by (auto simp: try_row_def dest!: try_project_Inr try_vendor_Inr split: if_splits) }
  then show ?thesis
    by (auto simp: process_row_def split: prod.splits sum.splits)
qed

lemma import_rows_well_formed:
  "list_all2 (\<lambda>r res. well_formed (rowIndex r) res) rows (fst (import_rows env rt l da rows c))"
proof (induction rows arbitrary: c)
  case Nil
  show ?case by simp
next
  case (Cons r rows)
  obtain res c1 where p: "process_row env rt l da r c = (res, c1)" by (cases "process_row env rt l da r c")
  obtain ress c2 where i: "import_rows env rt l da rows c1 = (ress, c2)" by (cases "import_rows env rt l da rows c1")
  from process_row_well_formed[of r env rt l da c] p have "well_formed (rowIndex r) res" by simp
  moreover from Cons.IH[of c1] i have "list_all2 (\<lambda>r res. well_formed (rowIndex r) res) rows ress" by simp
  ultimately show ?case using p i by simp
qed

lemma import_rows_append:
  "import_rows env rt l da (xs @ ys) c =
     (case import_rows env rt l da xs c of
        (o1, c1) \<Rightarrow> (case import_rows env rt l da ys c1 of (o2, c2) \<Rightarrow> (o1 @ o2, c2)))"
  by (induction xs arbitrary: c) (auto split: prod.splits)

lemma summary_counts:
  assumes "\<forall>res\<in>set results. action res \<in> {''created'', ''overwritten'', ''skipped'', ''error''} \<and>
                              (success res \<longleftrightarrow> action res \<noteq> ''error'')"
  shows "length (filter success results) =
           length (filter (\<lambda>r. action r = ''created'') results)
         + length (filter (\<lambda>r. action r = ''overwritten'') results)
         + length (filter (\<lambda>r. action r = ''skipped'') results)
       \<and> length results =
           length (filter success results) + length (filter (\<lambda>r. action r = ''error'') results)"
  using assms
proof (induction results)
  case Nil
  show ?case by simp
next
  case (Cons res results)
  then have IH: "length (filter success results) =
           length (filter (\<lambda>r. action r = ''created'') results)
         + length (filter (\<lambda>r. action r = ''overwritten'') results)
         + length (filter (\<lambda>r. action r = ''skipped'') results)
       \<and> length results =
           length (filter success results) + length (filter (\<lambda>r. action r = ''error'') results)"
    by simp
  from Cons.prems have "action res = ''created'' \<or> action res = ''overwritten'' \<or> action res = ''skipped'' \<or> action res = ''error''"
    and s: "success res \<longleftrightarrow> action res \<noteq> ''error''" by auto
  then show ?case using IH s
    by (elim disjE) simp_all
qed

lemma fold_max_bounds: "a \<le> fold max xs a \<and> (\<forall>x\<in>set xs. x \<le> fold max xs (a::nat))"
proof (induction xs arbitrary: a)
  case Nil
  show ?case by simp
next
  case (Cons y ys)
  from Cons.IH[of "max y a"] show ?case by auto
qed

lemma fresh_id_above: "x \<in> set t \<Longrightarrow> row_id x < fresh_id t"
  using fold_max_bounds[of 0 "map row_id t"] by (auto simp: fresh_id_def less_Suc_eq_le)

lemma fresh_id_new: "fresh_id t \<notin> row_id ` set t"
  using fresh_id_above by fastforce

lemma select_first_none:
  "(\<forall>x\<in>set t. \<not> P x) \<Longrightarrow> select_first P t = []"
  by (simp add: select_first_def find_None_iff[THEN iffD2])

lemma written_simps [simp]:
  "written JNull = JNull" "written JUndefined = JUndefined" "written (JNum n) = JNum n"
  "written (JBool b) = JBool b" "written (JBuiltin k) = JBuiltin k"
  by (simp_all add: written_def)

lemma written_all_simps [simp]:
  "written_all [] = []" "written_all (p # ps) = (fst p, written (snd p)) # written_all ps"
  by (simp_all add: written_all_def)

lemma query_ok:
  assumes "find (\<lambda>p. snd p = JUndefined) (replacements st) = None"
      and "\<not> aborted c" and "fault env (length (issued c)) = None"
      and "run (integer_of_text env) (sql_now env) st (store c) = Some (rs, d)"
  shows "query env st c = (Inr rs, \<lparr>store = d, issued = issued c @ [st], aborted = False\<rparr>)"
  using assms by (simp add: query_def)

lemma query_fault:
  assumes "find (\<lambda>p. snd p = JUndefined) (replacements st) = None"
      and "\<not> aborted c" and "fault env (length (issued c)) = Some msg"
  shows "query env st c = (Inl msg, c\<lparr>issued := issued c @ [st], aborted := True\<rparr>)"
  using assms by (simp add: query_def)

lemma query_aborted:
  assumes "aborted c"
  shows "\<exists>e c'. query env st c = (Inl e, c') \<and> store c' = store c \<and> aborted c'"
  using assms by (auto simp: query_def split: option.splits)

lemma or_bound [simp]: "or_null v \<noteq> JUndefined" "or_default v d \<noteq> JUndefined"
  by (auto simp: or_null_def or_default_def)

lemma braced_bound [simp]: "f \<noteq> JUndefined \<Longrightarrow> braced_category d f \<noteq> JUndefined"
  by (auto simp: braced_category_def split: option.splits mapped_value.splits)

lemma project_insert_bound:
  "get_field d ''risk_name'' \<noteq> JUndefined \<Longrightarrow> get_field d ''risk_description'' \<noteq> JUndefined \<Longrightarrow>
   find (\<lambda>p. snd p = JUndefined) (project_insert_params isoNow d) = None"
  by (simp add: project_insert_params_def)

lemma vendor_insert_bound:
  "get_field d ''risk_description'' \<noteq> JUndefined \<Longrightarrow>
   find (\<lambda>p. snd p = JUndefined) (vendor_insert_params d) = None"
  by (simp add: vendor_insert_params_def)

text \<open>The create paths, when no statement fails on a transaction that has not failed.\<close>

lemma create_project_created:
  assumes nofault: "\<forall>n. fault env n = None" and live: "\<not> aborted c"
      and nm: "get_field (data r) ''risk_name'' \<noteq> JUndefined"
      and ds: "get_field (data r) ''risk_description'' \<noteq> JUndefined"
      and lk: "linked_as lnk ''project'' \<or> linked_as lnk ''framework'' \<longrightarrow>
                 stored_integer (integer_of_text env) (written (link_id_of lnk)) \<noteq> None"
  shows "fst (create_project env lnk r c) =
           Inr (ok_result (rowIndex r) ''created'' (Some (fresh_id (risks (store c)))))
       \<and> \<not> aborted (snd (create_project env lnk r c))
       \<and> store (snd (create_project env lnk r c)) =
           (let n = the (stored_integer (integer_of_text env) (written (link_id_of lnk)));
                i = fresh_id (risks (store c));
                d1 = (store c)\<lparr>risks := risks (store c) @
                        [new_row (risks (store c)) (written_all (project_insert_params (iso_now env) (data r)))]\<rparr>;
                d2 = (if linked_as lnk ''project''
                      then d1\<lparr>projects_risks := projects_risks d1 @ [(n, i)]\<rparr> else d1)
            in if linked_as lnk ''framework''
               then d2\<lparr>frameworks_risks := frameworks_risks d2 @ [(n, i)]\<rparr> else d2)"
proof -
  let ?ins = "InsertRisk (project_insert_params (iso_now env) (data r))"
  let ?i = "fresh_id (risks (store c))"
  let ?d1 = "(store c)\<lparr>risks := risks (store c) @
                        [new_row (risks (store c)) (written_all (project_insert_params (iso_now env) (data r)))]\<rparr>"
  have q1: "query env ?ins c = (Inr [?i], \<lparr>store = ?d1, issued = issued c @ [?ins], aborted = False\<rparr>)"
    using nofault live project_insert_bound[OF nm ds]
    by (intro query_ok) simp_all
  have lid: "linked_as lnk t \<Longrightarrow> link_id_of lnk \<noteq> JUndefined" for t
    by (auto simp: linked_as_def link_id_of_def split: option.splits)
  show ?thesis
  proof (cases "linked_as lnk ''project'' \<or> linked_as lnk ''framework''")
    case False
    then show ?thesis
      by (simp add: create_project_def q1 returned_id_def)
  next
    case True
    with lk obtain n where n: "stored_integer (integer_of_text env) (written (link_id_of lnk)) = Some n" by auto
    from True have u: "link_id_of lnk \<noteq> JUndefined" using lid by blast
    have q: "query env st c' = (Inr [], \<lparr>store = d', issued = issued c' @ [st], aborted = False\<rparr>)"
      if "\<not> aborted c'" and "run (integer_of_text env) (sql_now env) st (store c') = Some ([], d')"
         and "find (\<lambda>p. snd p = JUndefined) (replacements st) = None" for st c' d'
      using that nofault by (intro query_ok) simp_all
    show ?thesis
      using u n
      by (simp add: create_project_def q1 returned_id_def q Let_def)
  qed
qed

lemma create_vendor_created:
  assumes nofault: "\<forall>n. fault env n = None" and live: "\<not> aborted c"
      and ds: "get_field (data r) ''risk_description'' \<noteq> JUndefined"
      and lk: "linked_as lnk ''vendor''"
      and n: "stored_integer (integer_of_text env) (written (link_id_of lnk)) = Some n"
  shows "fst (create_vendor env lnk r c) =
           Inr (ok_result (rowIndex r) ''created'' (Some (fresh_id (vendorRisks (store c)))))
       \<and> \<not> aborted (snd (create_vendor env lnk r c))
       \<and> store (snd (create_vendor env lnk r c)) =
           (store c)\<lparr>vendorRisks := vendorRisks (store c) @
               [new_row (vendorRisks (store c)) ((''vendor_id'', JNum n) # written_all (vendor_insert_params (data r)))]\<rparr>"
proof -
  let ?ins = "InsertVendorRisk (link_id_of lnk) (vendor_insert_params (data r))"
  from lk have u: "link_id_of lnk \<noteq> JUndefined"
    by (auto simp: linked_as_def link_id_of_def split: option.splits)
  have "query env ?ins c =
          (Inr [fresh_id (vendorRisks (store c))],
           \<lparr>store = (store c)\<lparr>vendorRisks := vendorRisks (store c) @
               [new_row (vendorRisks (store c)) ((''vendor_id'', JNum n) # written_all (vendor_insert_params (data r)))]\<rparr>,
            issued = issued c @ [?ins], aborted = False\<rparr>)"
    using nofault live vendor_insert_bound[OF ds] u n
    by (intro query_ok) simp_all
  then show ?thesis
    by (simp add: create_vendor_def returned_id_def)
qed

lemma stored_is_compared:
  "stored_integer rd x = Some v \<Longrightarrow> compared_integer rd x = Some v"
  by (auto simp: stored_integer_def compared_integer_def split: jsval.splits if_splits)

lemma new_project_row:
  "cols (new_row t (written_all (project_insert_params isoNow d))) ''risk_name'' =
     written (get_field d ''risk_name'')"
  "cols (new_row t (written_all (project_insert_params isoNow d))) ''risk_description'' =
     written (get_field d ''risk_description'')"
  by (simp_all add: new_row_def assign_cols_def project_insert_params_def)

lemma new_vendor_row:
  "cols (new_row t ((''vendor_id'', JNum n) # written_all (vendor_insert_params d))) ''vendor_id'' = JNum n"
  "cols (new_row t ((''vendor_id'', JNum n) # written_all (vendor_insert_params d))) ''risk_description'' =
     written (get_field d ''risk_description'')"
  by (simp_all add: new_row_def assign_cols_def vendor_insert_params_def)

lemma process_row_try:
  assumes "isValid r" and "resolve_action da (rowIndex r) = a" and "a \<noteq> ''skip''"
      and "fst (try_row env rt lnk a r c) = Inr res"
  shows "process_row env rt lnk da r c = (res, snd (try_row env rt lnk a r c))"
  using assms by (cases "try_row env rt lnk a r c") (simp add: process_row_def)

lemma process_row_catch:
  assumes "isValid r" and "resolve_action da (rowIndex r) = a" and "a \<noteq> ''skip''"
      and "try_row env rt lnk a r c = (Inl msg, c1)"
  shows "process_row env rt lnk da r c = (error_result (rowIndex r) msg, c1)"
  using assms by (simp add: process_row_def)

lemma check_row_invalid:
  "\<not> isValid r \<Longrightarrow> check_row env rt r c = (Inr (passed_through (rowIndex r)), c)"
  by (simp add: check_row_def)

lemma check_row_effect:
  assumes "check_row env rt r c = (Inr dr, c')"
  shows "rowIndex dr = rowIndex r \<and> (isDuplicate dr \<longrightarrow> isValid r) \<and>
         (\<not> isValid r \<longrightarrow> dr = passed_through (rowIndex r)) \<and> store c' = store c \<and>
         (\<exists>sent. issued c' = issued c @ sent \<and> length sent \<le> (if isValid r then 1 else 0))"
proof (cases "isValid r")
  case False
  with assms show ?thesis by (auto simp: check_row_invalid passed_through_def)
next
  case True
  have q: "query env st c = (Inr ids, c1) \<Longrightarrow> store c1 = store c \<and> issued c1 = issued c @ [st]"
    if "st = SelectRisk k \<or> st = SelectVendorRiskByDescription k" for st k ids c1
    using that by (auto simp: query_def split: option.splits prod.splits if_splits)
  from assms True show ?thesis
    unfolding check_row_def Let_def
    by (auto simp: duplicate_entry_def split: if_splits list.splits dest!: and_then_Inr q[rotated])
qed

lemma check_rows_effect:
  assumes "check_rows env rt rows c = (Inr ds, c')"
  shows "list_all2 (\<lambda>r dr. rowIndex dr = rowIndex r \<and> (isDuplicate dr \<longrightarrow> isValid r) \<and> (\<not> isValid r \<longrightarrow> dr = passed_through (rowIndex r))) rows ds \<and>
         store c' = store c \<and>
         (\<exists>sent. issued c' = issued c @ sent \<and> length sent \<le> length (filter isValid rows))"
  using assms
proof (induction rows arbitrary: c ds)
  case Nil
  then show ?case by simp
next
  case (Cons r rows)
  from Cons.prems obtain dr c1 ds' where
    1: "check_row env rt r c = (Inr dr, c1)" and
    2: "check_rows env rt rows c1 = (Inr ds', c')" and
    3: "ds = dr # ds'"
    by (auto dest!: and_then_Inr)
  from check_row_effect[OF 1] obtain s1 where
    a: "rowIndex dr = rowIndex r" "isDuplicate dr \<longrightarrow> isValid r"
       "\<not> isValid r \<longrightarrow> dr = passed_through (rowIndex r)" "store c1 = store c"
       "issued c1 = issued c @ s1" "length s1 \<le> (if isValid r then 1 else 0)" by blast
  from Cons.IH[OF 2] obtain s2 where
    b: "list_all2 (\<lambda>r dr. rowIndex dr = rowIndex r \<and> (isDuplicate dr \<longrightarrow> isValid r) \<and> (\<not> isValid r \<longrightarrow> dr = passed_through (rowIndex r))) rows ds'"
       "store c' = store c1" "issued c' = issued c1 @ s2" "length s2 \<le> length (filter isValid rows)" by blast
  have i: "issued c' = issued c @ (s1 @ s2)" using a b by simp
  have n: "length (s1 @ s2) \<le> length (filter isValid (r # rows))" using a b by (simp split: if_splits)
  have l: "list_all2 (\<lambda>r dr. rowIndex dr = rowIndex r \<and> (isDuplicate dr \<longrightarrow> isValid r) \<and> (\<not> isValid r \<longrightarrow> dr = passed_through (rowIndex r))) (r # rows) ds"
    using a b 3 by simp
  have s: "store c' = store c" using a b by simp
  from i n have "\<exists>sent. issued c' = issued c @ sent \<and> length sent \<le> length (filter isValid (r # rows))"
    by blast
  with l s show ?case by simp
qed

lemma duplicates_only_valid:
  "list_all2 (\<lambda>r dr. rowIndex dr = rowIndex r \<and> (isDuplicate dr \<longrightarrow> isValid r) \<and> (\<not> isValid r \<longrightarrow> dr = passed_through (rowIndex r))) rows ds \<Longrightarrow>
   length (filter isDuplicate ds) \<le> length (filter isValid rows)"
  by (induction rule: list_all2_induct) auto

lemma import_handler_success:
  assumes "fst (import_handler env req d) = Success (results, summ)"
  shows "results = fst (import_rows env (riskType req) (linkTo req) (duplicateActions req)
                          (validatedRows req) \<lparr>store = d, issued = [], aborted = False\<rparr>)
         \<and> summ = import_summary_of results"
  using assms
  by (auto simp: import_handler_def rolled_back_def split: if_splits option.splits prod.splits)

text \<open>
  The project UPDATE leaves a column as it was when its replacement is null: every column
  but \<open>updated_at\<close> whose replacement is null keeps its value in every row.
\<close>

lemma coalesce_cols_null:
  "(\<forall>p\<in>set ps. fst p = k \<longrightarrow> snd p = JNull) \<Longrightarrow> coalesce_cols ps c k = c k"
  unfolding coalesce_cols_def
  by (induction ps arbitrary: c) auto

lemma project_overwrite_keeps_unmapped:
  assumes "k \<noteq> ''updated_at''"
      and "\<forall>p\<in>set (project_update_params dat). fst p = k \<longrightarrow> snd p = JNull"
  shows "\<exists>d'. run rd now (UpdateRisk i (project_update_params dat)) d = Some ([], d') \<and>
              map (\<lambda>x. cols x k) (risks d') = map (\<lambda>x. cols x k) (risks d)"
proof -
  from assms(2) have "\<forall>p\<in>set (written_all (project_update_params dat)). fst p = k \<longrightarrow> snd p = JNull"
    by (auto simp: written_all_def)
  from assms(1) coalesce_cols_null[OF this] show ?thesis
    by (simp add: update_where_id_def)
qed

lemma project_overwrite_keeps_impact:
  "\<not> truthy (get_field dat ''impact'') \<Longrightarrow>
   \<exists>d'. run rd now (UpdateRisk i (project_update_params dat)) d = Some ([], d') \<and>
        map (\<lambda>x. cols x ''impact'') (risks d') = map (\<lambda>x. cols x ''impact'') (risks d)"
  by (rule project_overwrite_keeps_unmapped) (simp_all add: project_update_params_def or_null_def)

text \<open>The lookup on labels that name no inherited member, and the two cells of the scenarios.\<close>

lemma calculateRiskLevel_own:
  assumes "l \<notin> set object_prototype_names" and "s \<notin> set object_prototype_names"
  shows "calculateRiskLevel (JStr l) (JStr s) =
           Some (if l = [] \<or> s = [] then JNull
                 else case map_of RISK_MATRIX l of
                        None \<Rightarrow> JNull
                      | Some row \<Rightarrow> (case map_of row s of None \<Rightarrow> JNull
                                     | Some lbl \<Rightarrow> if lbl = [] then JNull else JStr lbl))"
  using assms
  by (auto simp: calculateRiskLevel_def matrix_cell_def js_get_def or_null_def split: option.splits)

lemma risk_level_of_scenarios:
  "calculateRiskLevel (JStr ''Almost Certain'') (JStr ''Catastrophic'') = Some (JStr ''Very high risk'')"
  "calculateRiskLevel (JStr ''Rare'') (JStr ''Negligible'') = Some (JStr ''No risk'')"
  by (simp_all add: calculateRiskLevel_def matrix_cell_def RISK_MATRIX_def js_get_def or_null_def)

text \<open>The level a vendor row ends with, when its enumerated fields pass the enum check.\<close>

lemma vendor_level_value:
  assumes auto: "autoCalculateRiskLevel env"
      and enums: "enum_errors VENDOR_RISK_FIELDS (apply_mapping mapping (data r)) = []"
  shows "\<exists>v. validate_row env mapping ''vendor'' r = Some v \<and>
             data v ''risk_level'' =
               (let md = apply_mapping mapping (data r);
                    likelihood = js_get md ''likelihood'';
                    severity = js_get md ''risk_severity''
                in if severity = JStr ''Moderate'' \<and> likelihood = JStr ''Likely'' then Some (JStr ''High risk'')
                   else if severity = JStr ''Moderate'' \<and> likelihood = JStr ''Possible'' then Some (JStr ''Medium risk'')
                   else if severity = JStr ''Moderate'' \<and> likelihood = JStr ''Unlikely'' then Some (JStr ''Low risk'')
                   else if severity = JStr ''Moderate'' \<and> likelihood = JStr ''Rare'' then Some (JStr ''Very low risk'')
                   else md ''risk_level'')"
proof -
  define md where "md = apply_mapping mapping (data r)"
  have v: "validate_row env mapping ''vendor'' r =
        map_option (\<lambda>m. \<lparr>rowIndex = rowIndex r, data = m,
                         isValid = (length (required_errors VENDOR_RISK_FIELDS md) = 0),
                         errors = required_errors VENDOR_RISK_FIELDS md\<rparr>)
          (map_option (store_level md ''risk_level'')
             (calculateRiskLevel (js_get md ''likelihood'') (js_get md ''risk_severity'')))"
    using auto enums
    by (simp add: validate_row_def fields_for_def vendor_no_dates auto_calculate_def md_def Let_def)
  from vendor_enum_ok[OF enums[folded md_def]]
  consider (falsy) "\<not> truthy (js_get md ''likelihood'') \<or> \<not> truthy (js_get md ''risk_severity'')"
    | (opts) l s where "l \<in> set [''Very likely'', ''Likely'', ''Possible'', ''Unlikely'', ''Rare'']"
        "s \<in> set [''Very high'', ''High'', ''Moderate'', ''Low'', ''Very low'']"
        "js_get md ''likelihood'' = JStr l" "js_get md ''risk_severity'' = JStr s"
    by blast
  then show ?thesis
  proof cases
    case falsy
    then have "calculateRiskLevel (js_get md ''likelihood'') (js_get md ''risk_severity'') = Some JNull"
      by (rule calculateRiskLevel_falsy)
    with falsy show ?thesis
      unfolding v md_def[symmetric] by (auto simp: store_level_def Let_def)
  next
    case opts
    from vendor_lookup[OF opts(1,2)] opts(3,4) show ?thesis
      unfolding v md_def[symmetric] by (auto simp: store_level_def js_set_def Let_def)
  qed
qed

text \<open>
  A transaction on which a statement has failed: every row after it that is valid and not
  skipped ends as \<open>error\<close>, nothing more is written, and \<open>commit\<close> persists nothing.
\<close>

lemma and_then_query_aborted:
  "aborted c \<Longrightarrow> \<exists>e c'. and_then (query env st c) f = (Inl e, c') \<and> store c' = store c \<and> aborted c'"
  using query_aborted[of c env st] by auto

lemma try_row_aborted:
  assumes "aborted c"
  shows "(\<exists>e c'. try_row env rt lnk a r c = (Inl e, c') \<and> store c' = store c \<and> aborted c')
       \<or> try_row env rt lnk a r c =
           (Inr (error_result (rowIndex r) ''Vendor must be selected for vendor risk import''), c)"
  using assms
  by (simp add: try_row_def try_project_def try_vendor_def create_project_def create_vendor_def
        and_then_query_aborted)

lemma process_row_aborted:
  assumes "aborted c"
  shows "action (fst (process_row env rt lnk da r c)) \<in> {''error'', ''skipped''}
       \<and> aborted (snd (process_row env rt lnk da r c))
       \<and> store (snd (process_row env rt lnk da r c)) = store c"
  using assms try_row_aborted[OF assms, of env rt lnk "resolve_action da (rowIndex r)" r]
  by (auto simp: process_row_def error_result_def ok_result_def)

lemma import_rows_aborted:
  assumes "aborted c"
  shows "(\<forall>res\<in>set (fst (import_rows env rt lnk da rows c)). action res \<in> {''error'', ''skipped''})
       \<and> aborted (snd (import_rows env rt lnk da rows c))
       \<and> store (snd (import_rows env rt lnk da rows c)) = store c"
  using assms
proof (induction rows arbitrary: c)
  case Nil
  then show ?case by simp
next
  case (Cons r rows)
  obtain res c1 where p: "process_row env rt lnk da r c = (res, c1)" by (cases "process_row env rt lnk da r c")
  obtain ress c2 where i: "import_rows env rt lnk da rows c1 = (ress, c2)" by (cases "import_rows env rt lnk da rows c1")
  from process_row_aborted[OF Cons.prems, of env rt lnk da r] p
  have a: "action res \<in> {''error'', ''skipped''}" "aborted c1" "store c1 = store c" by simp_all
  from Cons.IH[OF a(2)] i have b: "\<forall>res\<in>set ress. action res \<in> {''error'', ''skipped''}" "aborted c2" "store c2 = store c1"
    by simp_all
  from a b show ?case by (simp add: p i)
qed

lemma aborted_import_persists_nothing:
  assumes "aborted (snd (import_rows env (riskType req) (linkTo req) (duplicateActions req)
                           (validatedRows req) \<lparr>store = d, issued = [], aborted = False\<rparr>))"
  shows "snd (import_handler env req d) = d"
  using assms
  by (auto simp: import_handler_def rolled_back_def split: option.splits prod.splits)

text \<open>
  The link's id written as text, and a row that does not hold its description.
\<close>

lemma decimal_integer_seven: "decimal_integer ''7'' = Some 7"
  by (simp add: decimal_integer_def blank_def digit_value_def Let_def)

lemma decimal_integer_examples: "decimal_integer ''12'' = Some 12" "decimal_integer ''abc'' = None"
  by (simp_all add: decimal_integer_def blank_def digit_value_def Let_def)

lemma text_id_matches_stored_vendor:
  "fst (process_row ex_env ''vendor'' (Some ex_text_link) [2 \<mapsto> ''overwrite''] ex_row_vendor
          \<lparr>store = ex_vendor_db, issued = [], aborted = False\<rparr>) =
     \<lparr>rowIndex = 2, success = True, riskId = Some 1, action = ''overwritten'', error = None\<rparr>"
  by (simp add: ex_defs import_defs decimal_integer_seven)

lemma unbound_description_fails_row:
  "process_row ex_env ''vendor'' (Some ex_vendor_link) Map.empty
       (ex_row_vendor\<lparr>data := [''likelihood'' \<mapsto> MText ''Likely'']\<rparr>)
       \<lparr>store = ex_vendor_db, issued = [], aborted = False\<rparr> =
     (\<lparr>rowIndex = 2, success = False, riskId = None, action = ''error'',
       error = Some ''Named parameter :risk_description has no value in the given object.''\<rparr>,
      \<lparr>store = ex_vendor_db, issued = [], aborted = False\<rparr>)"
  by (simp add: ex_defs import_defs)

text \<open>
  The data of a decoded row: under a header other than \<open>__proto__\<close> it holds the text of
  the cell in the last column with that header, and nothing else. A row has a value
  exactly when that text is not empty for some header.
\<close>

lemma strip_Nil [simp]: "strip ws [] = []"
  by (subst strip.simps) (simp add: find_None_iff[THEN iffD2])

lemma row_data_snoc:
  "row_data (hs @ [x]) r =
     (case x of Some header \<Rightarrow> js_set (row_data hs r) header (cell_text r (length hs))
      | None \<Rightarrow> row_data hs r)"
  by (cases x) (simp_all add: row_data_def enumerate_append_eq)

lemma row_data_lookup:
  "row_data hs r h = Some v \<longleftrightarrow>
     h \<noteq> ''__proto__'' \<and>
     (\<exists>j<length hs. hs ! j = Some h \<and> (\<forall>k<length hs. j < k \<longrightarrow> hs ! k \<noteq> Some h) \<and> v = cell_text r j)"
proof (induction hs arbitrary: v rule: rev_induct)
  case Nil
  show ?case by (simp add: row_data_def)
next
  case (snoc x hs)
  show ?case
  proof (cases "x = Some h \<and> h \<noteq> ''__proto__''")
    case True
    then have "row_data (hs @ [x]) r h = Some (cell_text r (length hs))"
      by (simp add: row_data_snoc js_set_def)
    moreover have "(\<exists>j<length (hs @ [x]). (hs @ [x]) ! j = Some h \<and>
               (\<forall>k<length (hs @ [x]). j < k \<longrightarrow> (hs @ [x]) ! k \<noteq> Some h) \<and> v = cell_text r j)
            \<longleftrightarrow> v = cell_text r (length hs)"
    proof
      assume "\<exists>j<length (hs @ [x]). (hs @ [x]) ! j = Some h \<and>
               (\<forall>k<length (hs @ [x]). j < k \<longrightarrow> (hs @ [x]) ! k \<noteq> Some h) \<and> v = cell_text r j"
      then obtain j where j: "j < length (hs @ [x])" "(hs @ [x]) ! j = Some h"
        "\<forall>k<length (hs @ [x]). j < k \<longrightarrow> (hs @ [x]) ! k \<noteq> Some h" "v = cell_text r j" by blast
      have "j = length hs"
      proof (rule ccontr)
        assume "j \<noteq> length hs"
        with j(1) have "j < length hs" by simp
        with j(3) True show False by (auto simp: nth_append)
      qed
      with j(4) show "v = cell_text r (length hs)" by simp
    next
      assume "v = cell_text r (length hs)"
      with True show "\<exists>j<length (hs @ [x]). (hs @ [x]) ! j = Some h \<and>
               (\<forall>k<length (hs @ [x]). j < k \<longrightarrow> (hs @ [x]) ! k \<noteq> Some h) \<and> v = cell_text r j"
        by (intro exI[of _ "length hs"]) simp
    qed
    ultimately show ?thesis using True by auto
  next
    case False
    then have same: "row_data (hs @ [x]) r h = row_data hs r h"
      by (auto simp: row_data_snoc js_set_def split: option.splits)
    from False have nx: "h \<noteq> ''__proto__'' \<Longrightarrow> x \<noteq> Some h" by blast
    have "h \<noteq> ''__proto__'' \<Longrightarrow>
          (\<exists>j<length (hs @ [x]). (hs @ [x]) ! j = Some h \<and>
               (\<forall>k<length (hs @ [x]). j < k \<longrightarrow> (hs @ [x]) ! k \<noteq> Some h) \<and> v = cell_text r j)
          \<longleftrightarrow> (\<exists>j<length hs. hs ! j = Some h \<and> (\<forall>k<length hs. j < k \<longrightarrow> hs ! k \<noteq> Some h) \<and> v = cell_text r j)"
      using nx by (auto simp: nth_append less_Suc_eq)
    then show ?thesis unfolding same snoc.IH by blast
  qed
qed

lemma has_value_ex:
  "has_value hs d \<longleftrightarrow> (\<exists>h v. Some h \<in> set hs \<and> d h = Some v \<and> v \<noteq> [])"
proof
  assume "has_value hs d"
  then obtain x where x: "x \<in> set hs"
    "case x of Some header \<Rightarrow> (case d header of Some v \<Rightarrow> length v > 0 | None \<Rightarrow> False) | None \<Rightarrow> False"
    unfolding has_value_def list_ex_iff by blast
  from x(2) obtain h where h: "x = Some h" by (cases x) simp_all
  with x(2) obtain v where "d h = Some v" "v \<noteq> []" by (cases "d h") simp_all
  with x(1) h show "\<exists>h v. Some h \<in> set hs \<and> d h = Some v \<and> v \<noteq> []" by blast
next
  assume "\<exists>h v. Some h \<in> set hs \<and> d h = Some v \<and> v \<noteq> []"
  then obtain h v where "Some h \<in> set hs" "d h = Some v" "v \<noteq> []" by blast
  then show "has_value hs d"
    unfolding has_value_def list_ex_iff by (intro bexI[of _ "Some h"]) simp_all
qed

lemma has_value_iff:
  "has_value hs (row_data hs r) \<longleftrightarrow>
     (\<exists>j<length hs. \<exists>h. hs ! j = Some h \<and> h \<noteq> ''__proto__'' \<and>
         (\<forall>k<length hs. j < k \<longrightarrow> hs ! k \<noteq> Some h) \<and> cell_text r j \<noteq> [])"
proof
  assume "has_value hs (row_data hs r)"
  then obtain h v where "Some h \<in> set hs" "row_data hs r h = Some v" "v \<noteq> []"
    unfolding has_value_ex by blast
  then show "\<exists>j<length hs. \<exists>h. hs ! j = Some h \<and> h \<noteq> ''__proto__'' \<and>
         (\<forall>k<length hs. j < k \<longrightarrow> hs ! k \<noteq> Some h) \<and> cell_text r j \<noteq> []"
    unfolding row_data_lookup by blast
next
  assume "\<exists>j<length hs. \<exists>h. hs ! j = Some h \<and> h \<noteq> ''__proto__'' \<and>
         (\<forall>k<length hs. j < k \<longrightarrow> hs ! k \<noteq> Some h) \<and> cell_text r j \<noteq> []"
  then obtain j h where j: "j < length hs" "hs ! j = Some h" "h \<noteq> ''__proto__''"
    "\<forall>k<length hs. j < k \<longrightarrow> hs ! k \<noteq> Some h" "cell_text r j \<noteq> []" by blast
  then have "row_data hs r h = Some (cell_text r j)"
    unfolding row_data_lookup by blast
  moreover from j(1,2) have "Some h \<in> set hs" by (metis nth_mem)
  ultimately show "has_value hs (row_data hs r)"
    using j(5) unfolding has_value_ex by blast
qed

lemma parse_rows_kept:
  "map rowIndex (parse_rows hs rest) =
     map (\<lambda>p. fst p + 2) (filter (\<lambda>p. has_value hs (row_data hs (snd p))) (enumerate 0 rest))"
  "map data (parse_rows hs rest) = map (row_data hs) (filter (\<lambda>r. has_value hs (row_data hs r)) rest)"
  "length (parse_rows hs rest) = length (filter (\<lambda>r. has_value hs (row_data hs r)) rest)"
proof -
  have e: "filter (\<lambda>r. has_value hs (data r))
             (map (\<lambda>(index, r). \<lparr>rowIndex = index + 2, data = row_data hs r\<rparr>) (enumerate n rest)) =
           map (\<lambda>(index, r). \<lparr>rowIndex = index + 2, data = row_data hs r\<rparr>)
             (filter (\<lambda>p. has_value hs (row_data hs (snd p))) (enumerate n rest))" for n
    by (induction rest arbitrary: n) auto
  have f: "map snd (filter (\<lambda>p. P (snd p)) (enumerate n rest)) = filter P rest" for P n
    by (induction rest arbitrary: n) auto
  show "map rowIndex (parse_rows hs rest) =
     map (\<lambda>p. fst p + 2) (filter (\<lambda>p. has_value hs (row_data hs (snd p))) (enumerate 0 rest))"
    unfolding parse_rows_def e by (simp add: case_prod_beta comp_def)
  have "map data (parse_rows hs rest) =
          map (row_data hs) (map snd (filter (\<lambda>p. has_value hs (row_data hs (snd p))) (enumerate 0 rest)))"
    unfolding parse_rows_def e by (simp add: case_prod_beta comp_def)
  then show d: "map data (parse_rows hs rest) = map (row_data hs) (filter (\<lambda>r. has_value hs (row_data hs r)) rest)"
    by (simp only: f[of "\<lambda>r. has_value hs (row_data hs r)" 0])
  from arg_cong[OF d, of length]
  show "length (parse_rows hs rest) = length (filter (\<lambda>r. has_value hs (row_data hs r)) rest)"
    by simp
qed

section \<open>Transactional import: errors and the transaction\<close>

text \<open>
  Claim C1. Three valid project rows on a store that holds the risk \<open>Data leak\<close>: the first
  and the third overwrite it, the second is to be created and linked to a project whose
  id, \<open>abc\<close>, the store does not read as an integer. The error of the second row is caught
  and the row ends as \<open>error\<close>, the loop reaches the third row, \<open>commit\<close> returns and the
  handler answers with the results, as the claim says. But the handler sets no savepoint
  around a row, and the rejected statement leaves the transaction failed: the third row,
  which writes no link and with which nothing is wrong, ends as \<open>error\<close>, and \<open>COMMIT\<close>
  persists nothing, so that the stored risk is as before the request although the response
  reports the first row as overwritten. With a project id the store reads, the same rows
  end as overwritten, created and overwritten, and their writes are stored. The same
  happens when the store rejects a statement for a constraint of its own: of three rows to
  create, the second rejected, the third ends as \<open>error\<close> and the first, reported as
  created, is not stored.
\<close>

theorem failed_statement_aborts_transaction:
  "import_handler ex_env ex_linked_request ex_project_db =
     (Success ([\<lparr>rowIndex = 3, success = True, riskId = Some 5, action = ''overwritten'', error = None\<rparr>,
                \<lparr>rowIndex = 4, success = False, riskId = None, action = ''error'',
                  error = Some ''invalid input syntax for type integer''\<rparr>,
                \<lparr>rowIndex = 5, success = False, riskId = None, action = ''error'',
                  error = Some ''current transaction is aborted, commands ignored until end of transaction block''\<rparr>],
               \<lparr>s_total = 3, s_success = 1, s_created = 0, s_overwritten = 1, s_skipped = 0, s_errors = 2\<rparr>),
      ex_project_db)
   \<and> map (\<lambda>x. (row_id x, cols x ''risk_description'')) (risks ex_project_db) = [(5, JNull)]
   \<and> (case import_handler ex_env
              (ex_linked_request\<lparr>linkTo := Some \<lparr>link_type = ''project'', link_id = JStr ''12''\<rparr>\<rparr>)
              ex_project_db of
        (Success (results, summ), d') \<Rightarrow>
           map action results = [''overwritten'', ''created'', ''overwritten''] \<and>
           map (\<lambda>x. (row_id x, cols x ''risk_description'')) (risks d') =
             [(5, JStr ''Exposed bucket''), (6, JStr ''Credential theft'')] \<and>
           projects_risks d' = [(12, 6)]
      | _ \<Rightarrow> False)
   \<and> import_handler ex_failing_env ex_batch_request ex_project_db =
     (Success ([\<lparr>rowIndex = 2, success = True, riskId = Some 6, action = ''created'', error = None\<rparr>,
                \<lparr>rowIndex = 3, success = False, riskId = None, action = ''error'',
                  error = Some ''duplicate key value violates unique constraint''\<rparr>,
                \<lparr>rowIndex = 4, success = False, riskId = None, action = ''error'',
                  error = Some ''current transaction is aborted, commands ignored until end of transaction block''\<rparr>],
               \<lparr>s_total = 3, s_success = 1, s_created = 1, s_overwritten = 0, s_skipped = 0, s_errors = 2\<rparr>),
      ex_project_db)"
proof -
  have a: "import_handler ex_env ex_linked_request ex_project_db =
     (Success ([\<lparr>rowIndex = 3, success = True, riskId = Some 5, action = ''overwritten'', error = None\<rparr>,
                \<lparr>rowIndex = 4, success = False, riskId = None, action = ''error'',
                  error = Some ''invalid input syntax for type integer''\<rparr>,
                \<lparr>rowIndex = 5, success = False, riskId = None, action = ''error'',
                  error = Some ''current transaction is aborted, commands ignored until end of transaction block''\<rparr>],
               \<lparr>s_total = 3, s_success = 1, s_created = 0, s_overwritten = 1, s_skipped = 0, s_errors = 2\<rparr>),
      ex_project_db)"
    by (simp add: ex_defs import_defs decimal_integer_examples)
  have b: "map (\<lambda>x. (row_id x, cols x ''risk_description'')) (risks ex_project_db) = [(5, JNull)]"
    by (simp add: ex_defs assign_cols_def)
  have c: "(case import_handler ex_env
              (ex_linked_request\<lparr>linkTo := Some \<lparr>link_type = ''project'', link_id = JStr ''12''\<rparr>\<rparr>)
              ex_project_db of
        (Success (results, summ), d') \<Rightarrow>
           map action results = [''overwritten'', ''created'', ''overwritten''] \<and>
           map (\<lambda>x. (row_id x, cols x ''risk_description'')) (risks d') =
             [(5, JStr ''Exposed bucket''), (6, JStr ''Credential theft'')] \<and>
           projects_risks d' = [(12, 6)]
      | _ \<Rightarrow> False)"
    by (simp add: ex_defs import_defs decimal_integer_examples)
  have d: "import_handler ex_failing_env ex_batch_request ex_project_db =
     (Success ([\<lparr>rowIndex = 2, success = True, riskId = Some 6, action = ''created'', error = None\<rparr>,
                \<lparr>rowIndex = 3, success = False, riskId = None, action = ''error'',
                  error = Some ''duplicate key value violates unique constraint''\<rparr>,
                \<lparr>rowIndex = 4, success = False, riskId = None, action = ''error'',
                  error = Some ''current transaction is aborted, commands ignored until end of transaction block''\<rparr>],
               \<lparr>s_total = 3, s_success = 1, s_created = 1, s_overwritten = 0, s_skipped = 0, s_errors = 2\<rparr>),
      ex_project_db)"
    by (simp add: ex_defs import_defs)
  from a b c d show ?thesis by blast
qed

section \<open>Overwrite\<close>

text \<open>
  Claim C2. On two stored records and two rows that leave a field unmapped, both with
  action \<open>overwrite\<close>: the project UPDATE keeps the stored \<open>impact\<close>, as the claim says; the
  vendor UPDATE sets the stored \<open>impact_description\<close> to NULL. Both rows end as
  \<open>overwritten\<close>.
\<close>

theorem vendor_overwrite_clears_unmapped_fields:
  "(case import_handler ex_env ex_vendor_overwrite_request ex_vendor_db of
      (Success (results, summ), d') \<Rightarrow>
         map action results = [''overwritten''] \<and> map riskId results = [Some 1] \<and>
         data ex_row_vendor ''impact_description'' = None \<and>
         map (\<lambda>x. cols x ''impact_description'') (vendorRisks ex_vendor_db) = [JStr ''Penalty fees''] \<and>
         map (\<lambda>x. cols x ''impact_description'') (vendorRisks d') = [JNull]
    | _ \<Rightarrow> False)
   \<and> (case import_handler ex_env ex_import_request ex_project_db of
      (Success (results, summ), d') \<Rightarrow>
         map action results = [''created'', ''overwritten'', ''error''] \<and>
         data ex_row_leak ''impact'' = None \<and>
         map (\<lambda>x. (row_id x, cols x ''impact'')) (risks ex_project_db) = [(5, JStr ''Fines'')] \<and>
         map (\<lambda>x. (row_id x, cols x ''impact'')) (risks d') = [(5, JStr ''Fines''), (6, JStr ''To be assessed'')]
    | _ \<Rightarrow> False)"
  by (simp add: ex_defs import_defs)

text \<open>
  Claim C5. A valid row with action \<open>overwrite\<close>, on a transaction that has not failed and
  a store that fails no statement, when the row holds its key fields (the name and the
  description of a project row, the description of a vendor row), the id of the link
  target, where one is written to the store, is one the store reads as an integer, and
  the lookup finds no record (for a vendor row: a vendor is linked, and no record of that
  vendor that is not deleted has the description, each as the statement writes it). The
  row ends as \<open>created\<close>, with an identifier no stored record of the table has; the table
  afterwards is the table before with one record more, at its end, which has that
  identifier, is not deleted and holds the row's description and the row's name or the
  vendor's id; the transaction has not failed; and the result and the store are those of
  the same row with action \<open>create\<close>.
\<close>

theorem overwrite_without_match_creates:
  assumes valid: "isValid r"
      and act: "resolve_action da (rowIndex r) = ''overwrite''"
      and nofault: "\<forall>n. fault env n = None"
      and live: "\<not> aborted c"
      and proj: "rt = ''project'' \<longrightarrow>
                  get_field (data r) ''risk_name'' \<noteq> JUndefined \<and>
                  get_field (data r) ''risk_description'' \<noteq> JUndefined \<and>
                  (linked_as lnk ''project'' \<or> linked_as lnk ''framework'' \<longrightarrow>
                     stored_integer (integer_of_text env) (written (link_id_of lnk)) \<noteq> None) \<and>
                  (\<forall>x\<in>set (risks (store c)).
                      cols x ''risk_name'' = written (get_field (data r) ''risk_name'') \<longrightarrow> is_deleted x)"
      and vend: "rt \<noteq> ''project'' \<longrightarrow>
                  linked_as lnk ''vendor'' \<and>
                  get_field (data r) ''risk_description'' \<noteq> JUndefined \<and>
                  stored_integer (integer_of_text env) (written (link_id_of lnk)) = Some v \<and>
                  (\<forall>x\<in>set (vendorRisks (store c)).
                      cols x ''risk_description'' = written (get_field (data r) ''risk_description'') \<and>
                      cols x ''vendor_id'' = JNum v \<longrightarrow> is_deleted x)"
  shows "fst (process_row env rt lnk da r c) =
           ok_result (rowIndex r) ''created''
             (Some (fresh_id ((if rt = ''project'' then risks else vendorRisks) (store c))))
       \<and> fresh_id ((if rt = ''project'' then risks else vendorRisks) (store c))
           \<notin> row_id ` set ((if rt = ''project'' then risks else vendorRisks) (store c))
       \<and> (\<exists>x. (if rt = ''project'' then risks else vendorRisks) (store (snd (process_row env rt lnk da r c))) =
                 (if rt = ''project'' then risks else vendorRisks) (store c) @ [x] \<and>
               row_id x = fresh_id ((if rt = ''project'' then risks else vendorRisks) (store c)) \<and>
               \<not> is_deleted x \<and>
               cols x ''risk_description'' = written (get_field (data r) ''risk_description'') \<and>
               (if rt = ''project'' then cols x ''risk_name'' = written (get_field (data r) ''risk_name'')
                else cols x ''vendor_id'' = JNum v))
       \<and> \<not> aborted (snd (process_row env rt lnk da r c))
       \<and> fst (process_row env rt lnk da r c) =
           fst (process_row env rt lnk (da(rowIndex r \<mapsto> ''create'')) r c)
       \<and> store (snd (process_row env rt lnk da r c)) =
           store (snd (process_row env rt lnk (da(rowIndex r \<mapsto> ''create'')) r c))"
proof (cases "rt = ''project''")
  case True
  let ?key = "get_field (data r) ''risk_name''"
  let ?new = "ok_result (rowIndex r) ''created'' (Some (fresh_id (risks (store c))))"
  let ?c1 = "\<lparr>store = store c, issued = issued c @ [SelectRisk ?key], aborted = False\<rparr>"
  let ?x = "new_row (risks (store c)) (written_all (project_insert_params (iso_now env) (data r)))"
  from proj True have nm: "?key \<noteq> JUndefined"
    and ds: "get_field (data r) ''risk_description'' \<noteq> JUndefined"
    and lk: "linked_as lnk ''project'' \<or> linked_as lnk ''framework'' \<longrightarrow>
               stored_integer (integer_of_text env) (written (link_id_of lnk)) \<noteq> None"
    and none: "\<forall>x\<in>set (risks (store c)). cols x ''risk_name'' = written ?key \<longrightarrow> is_deleted x"
    by simp_all
  from none have sel: "select_first (\<lambda>x. cols x ''risk_name'' = written ?key \<and> \<not> is_deleted x) (risks (store c)) = []"
    by (intro select_first_none) auto
  have q: "query env (SelectRisk ?key) c = (Inr [], ?c1)"
    using nofault live nm sel by (intro query_ok) simp_all
  have ov: "try_row env ''project'' lnk ''overwrite'' r c =
        (if truthy ?key then create_project env lnk r ?c1 else create_project env lnk r c)"
    by (simp add: try_row_def try_project_def q)
  have cr: "try_row env ''project'' lnk ''create'' r c = create_project env lnk r c"
    by (simp add: try_row_def try_project_def)
  note a = create_project_created[OF nofault live nm ds lk]
  have live1: "\<not> aborted ?c1" by simp
  note b = create_project_created[OF nofault live1 nm ds lk]
  have f_ov: "fst (try_row env ''project'' lnk ''overwrite'' r c) = Inr ?new"
    and s_ov: "store (snd (try_row env ''project'' lnk ''overwrite'' r c)) = store (snd (create_project env lnk r c))"
    and l_ov: "\<not> aborted (snd (try_row env ''project'' lnk ''overwrite'' r c))"
    unfolding ov using a b by simp_all
  have f_cr: "fst (try_row env ''project'' lnk ''create'' r c) = Inr ?new"
    unfolding cr using a by simp
  have res: "resolve_action (da(rowIndex r \<mapsto> ''create'')) (rowIndex r) = ''create''"
    by (simp add: resolve_action_def)
  have p_ov: "process_row env ''project'' lnk da r c = (?new, snd (try_row env ''project'' lnk ''overwrite'' r c))"
    by (rule process_row_try[OF valid act _ f_ov]) simp
  have p_cr: "process_row env ''project'' lnk (da(rowIndex r \<mapsto> ''create'')) r c = (?new, snd (try_row env ''project'' lnk ''create'' r c))"
    by (rule process_row_try[OF valid res _ f_cr]) simp
  have rows: "risks (store (snd (create_project env lnk r c))) = risks (store c) @ [?x]"
    using a by (simp add: Let_def)
  have x: "row_id ?x = fresh_id (risks (store c))" "\<not> is_deleted ?x"
    by (simp_all add: new_row_def)
  have ex: "\<exists>x. risks (store (snd (process_row env ''project'' lnk da r c))) = risks (store c) @ [x] \<and>
               row_id x = fresh_id (risks (store c)) \<and> \<not> is_deleted x \<and>
               cols x ''risk_description'' = written (get_field (data r) ''risk_description'') \<and>
               cols x ''risk_name'' = written (get_field (data r) ''risk_name'')"
    using rows x new_project_row[of "risks (store c)" "iso_now env" "data r"]
    by (intro exI[of _ ?x]) (simp add: p_ov s_ov)
  show ?thesis
    unfolding True using fresh_id_new[of "risks (store c)"] ex
    by (simp add: p_ov p_cr s_ov cr l_ov)
next
  case False
  let ?key = "get_field (data r) ''risk_description''"
  let ?new = "ok_result (rowIndex r) ''created'' (Some (fresh_id (vendorRisks (store c))))"
  let ?sel = "SelectVendorRisk ?key (link_id_of lnk)"
  let ?c1 = "\<lparr>store = store c, issued = issued c @ [?sel], aborted = False\<rparr>"
  let ?x = "new_row (vendorRisks (store c)) ((''vendor_id'', JNum v) # written_all (vendor_insert_params (data r)))"
  from vend False have lk: "linked_as lnk ''vendor''" and ds: "?key \<noteq> JUndefined"
    and n: "stored_integer (integer_of_text env) (written (link_id_of lnk)) = Some v"
    and nm: "\<forall>x\<in>set (vendorRisks (store c)). \<not> (cols x ''risk_description'' = written ?key \<and>
                      cols x ''vendor_id'' = JNum v \<and> \<not> is_deleted x)"
    by auto
  from nm have sel: "select_first (\<lambda>x. cols x ''risk_description'' = written ?key \<and>
                      cols x ''vendor_id'' = JNum v \<and> \<not> is_deleted x) (vendorRisks (store c)) = []"
    by (rule select_first_none)
  from lk have u: "link_id_of lnk \<noteq> JUndefined"
    by (auto simp: linked_as_def link_id_of_def split: option.splits)
  have q: "query env ?sel c = (Inr [], ?c1)"
    using nofault live ds u sel stored_is_compared[OF n] by (intro query_ok) simp_all
  have ov: "try_row env rt lnk ''overwrite'' r c =
        (if truthy ?key then create_vendor env lnk r ?c1 else create_vendor env lnk r c)"
    using lk False by (simp add: try_row_def try_vendor_def q)
  have cr: "try_row env rt lnk ''create'' r c = create_vendor env lnk r c"
    using lk False by (simp add: try_row_def try_vendor_def)
  note a = create_vendor_created[OF nofault live ds lk n]
  have live1: "\<not> aborted ?c1" by simp
  note b = create_vendor_created[OF nofault live1 ds lk n]
  have f_ov: "fst (try_row env rt lnk ''overwrite'' r c) = Inr ?new"
    and s_ov: "store (snd (try_row env rt lnk ''overwrite'' r c)) = store (snd (create_vendor env lnk r c))"
    and l_ov: "\<not> aborted (snd (try_row env rt lnk ''overwrite'' r c))"
    unfolding ov using a b by simp_all
  have f_cr: "fst (try_row env rt lnk ''create'' r c) = Inr ?new"
    unfolding cr using a by simp
  have res: "resolve_action (da(rowIndex r \<mapsto> ''create'')) (rowIndex r) = ''create''"
    by (simp add: resolve_action_def)
  have p_ov: "process_row env rt lnk da r c = (?new, snd (try_row env rt lnk ''overwrite'' r c))"
    by (rule process_row_try[OF valid act _ f_ov]) simp
  have p_cr: "process_row env rt lnk (da(rowIndex r \<mapsto> ''create'')) r c = (?new, snd (try_row env rt lnk ''create'' r c))"
    by (rule process_row_try[OF valid res _ f_cr]) simp
  have tbl: "(if rt = ''project'' then risks else vendorRisks) = vendorRisks"
    using False by simp
  have rows: "vendorRisks (store (snd (create_vendor env lnk r c))) = vendorRisks (store c) @ [?x]"
    using a by simp
  have x: "row_id ?x = fresh_id (vendorRisks (store c))" "\<not> is_deleted ?x"
    by (simp_all add: new_row_def)
  have "\<exists>x. vendorRisks (store (snd (process_row env rt lnk da r c))) = vendorRisks (store c) @ [x] \<and>
               row_id x = fresh_id (vendorRisks (store c)) \<and> \<not> is_deleted x \<and>
               cols x ''risk_description'' = written (get_field (data r) ''risk_description'') \<and>
               cols x ''vendor_id'' = JNum v"
    using rows x new_vendor_row[of "vendorRisks (store c)" v "data r"]
    by (intro exI[of _ ?x]) (simp add: p_ov s_ov)
  then show ?thesis
    unfolding tbl using fresh_id_new[of "vendorRisks (store c)"] False
    by (simp add: p_ov p_cr s_ov cr l_ov)
qed

text \<open>
  A vendor row described \<open>Breach at the vendor\<close> with action \<open>overwrite\<close>, the vendor
  named by the text \<open>7\<close>, on a store whose only vendor risk is \<open>Late delivery\<close> of vendor
  7: it is created with identifier 2, for vendor 7. A project row named \<open>Server outage\<close>
  with action \<open>overwrite\<close>, on a store whose only risk is \<open>Data leak\<close> with identifier 5: it
  is created with identifier 6.
\<close>

theorem overwrite_without_match_creates_witness:
  "isValid ex_row_breach \<and> resolve_action [3 \<mapsto> ''overwrite''] (rowIndex ex_row_breach) = ''overwrite'' \<and>
   (\<forall>n. fault ex_env n = None) \<and>
   linked_as (Some ex_text_link) ''vendor'' \<and>
   stored_integer (integer_of_text ex_env) (written (link_id_of (Some ex_text_link))) = Some 7 \<and>
   map (\<lambda>x. (row_id x, cols x ''vendor_id'', cols x ''risk_description'')) (vendorRisks ex_vendor_db) =
     [(1, JNum 7, JStr ''Late delivery'')] \<and>
   fst (process_row ex_env ''vendor'' (Some ex_text_link) [3 \<mapsto> ''overwrite''] ex_row_breach
          \<lparr>store = ex_vendor_db, issued = [], aborted = False\<rparr>) =
     \<lparr>rowIndex = 3, success = True, riskId = Some 2, action = ''created'', error = None\<rparr> \<and>
   map (\<lambda>x. (row_id x, cols x ''vendor_id'', cols x ''risk_description''))
     (vendorRisks (store (snd (process_row ex_env ''vendor'' (Some ex_text_link) [3 \<mapsto> ''overwrite''] ex_row_breach
          \<lparr>store = ex_vendor_db, issued = [], aborted = False\<rparr>)))) =
     [(1, JNum 7, JStr ''Late delivery''), (2, JNum 7, JStr ''Breach at the vendor'')] \<and>
   isValid ex_row_outage \<and> resolve_action [2 \<mapsto> ''overwrite''] (rowIndex ex_row_outage) = ''overwrite'' \<and>
   map (\<lambda>x. (row_id x, cols x ''risk_name'')) (risks ex_project_db) = [(5, JStr ''Data leak'')] \<and>
   fst (process_row ex_env ''project'' None [2 \<mapsto> ''overwrite''] ex_row_outage
          \<lparr>store = ex_project_db, issued = [], aborted = False\<rparr>) =
     \<lparr>rowIndex = 2, success = True, riskId = Some 6, action = ''created'', error = None\<rparr> \<and>
   map (\<lambda>x. (row_id x, cols x ''risk_name''))
     (risks (store (snd (process_row ex_env ''project'' None [2 \<mapsto> ''overwrite''] ex_row_outage
          \<lparr>store = ex_project_db, issued = [], aborted = False\<rparr>)))) =
     [(5, JStr ''Data leak''), (6, JStr ''Server outage'')]"
proof -
  let ?c = "\<lparr>store = ex_vendor_db, issued = [], aborted = False\<rparr>"
  let ?cp = "\<lparr>store = ex_project_db, issued = [], aborted = False\<rparr>"
  have h: "isValid ex_row_breach" "resolve_action [3 \<mapsto> ''overwrite''] (rowIndex ex_row_breach) = ''overwrite''"
    "\<forall>n. fault ex_env n = None" "\<not> aborted ?c"
    by (simp_all add: ex_defs resolve_action_def)
  have l: "linked_as (Some ex_text_link) ''vendor''"
    and s: "stored_integer (integer_of_text ex_env) (written (link_id_of (Some ex_text_link))) = Some 7"
    by (simp_all add: ex_defs linked_as_def link_id_of_def stored_integer_def decimal_integer_seven
          written_def literal_text_def)
  have t: "map (\<lambda>x. (row_id x, cols x ''vendor_id'', cols x ''risk_description'')) (vendorRisks ex_vendor_db) =
     [(1, JNum 7, JStr ''Late delivery'')]"
    by (simp add: ex_defs assign_cols_def)
  have d: "get_field (data ex_row_breach) ''risk_description'' = JStr ''Breach at the vendor''"
    "written (JStr ''Breach at the vendor'') = JStr ''Breach at the vendor''"
    by (simp_all add: ex_defs get_field_def written_def literal_text_def)
  have v: "''vendor'' \<noteq> ''project'' \<longrightarrow>
                  linked_as (Some ex_text_link) ''vendor'' \<and>
                  get_field (data ex_row_breach) ''risk_description'' \<noteq> JUndefined \<and>
                  stored_integer (integer_of_text ex_env) (written (link_id_of (Some ex_text_link))) = Some 7 \<and>
                  (\<forall>x\<in>set (vendorRisks (store ?c)).
                      cols x ''risk_description'' = written (get_field (data ex_row_breach) ''risk_description'') \<and>
                      cols x ''vendor_id'' = JNum 7 \<longrightarrow> is_deleted x)"
    using l s by (simp add: d) (simp add: ex_defs assign_cols_def)
  from overwrite_without_match_creates[where r = ex_row_breach and da = "[3 \<mapsto> ''overwrite'']" and env = ex_env
         and rt = "''vendor''" and c = ?c and lnk = "Some ex_text_link" and v = 7, OF h _ v]
  obtain x where
    r: "fst (process_row ex_env ''vendor'' (Some ex_text_link) [3 \<mapsto> ''overwrite''] ex_row_breach ?c) =
          ok_result (rowIndex ex_row_breach) ''created'' (Some (fresh_id (vendorRisks (store ?c))))"
    and x: "vendorRisks (store (snd (process_row ex_env ''vendor'' (Some ex_text_link) [3 \<mapsto> ''overwrite''] ex_row_breach ?c))) =
          vendorRisks (store ?c) @ [x]"
       "row_id x = fresh_id (vendorRisks (store ?c))"
       "cols x ''risk_description'' = written (get_field (data ex_row_breach) ''risk_description'')"
       "cols x ''vendor_id'' = JNum 7"
    by auto
  have f: "fresh_id (vendorRisks ex_vendor_db) = 2"
    by (simp add: ex_defs fresh_id_def)
  from r have r': "fst (process_row ex_env ''vendor'' (Some ex_text_link) [3 \<mapsto> ''overwrite''] ex_row_breach ?c) =
     \<lparr>rowIndex = 3, success = True, riskId = Some 2, action = ''created'', error = None\<rparr>"
    by (simp add: f ok_result_def ex_row_breach_def)
  from x t have x': "map (\<lambda>x. (row_id x, cols x ''vendor_id'', cols x ''risk_description''))
     (vendorRisks (store (snd (process_row ex_env ''vendor'' (Some ex_text_link) [3 \<mapsto> ''overwrite''] ex_row_breach ?c)))) =
     [(1, JNum 7, JStr ''Late delivery''), (2, JNum 7, JStr ''Breach at the vendor'')]"
    by (simp add: f d)
  have hp: "isValid ex_row_outage" "resolve_action [2 \<mapsto> ''overwrite''] (rowIndex ex_row_outage) = ''overwrite''"
    "\<forall>n. fault ex_env n = None" "\<not> aborted ?cp"
    by (simp_all add: ex_defs resolve_action_def)
  have tp: "map (\<lambda>x. (row_id x, cols x ''risk_name'')) (risks ex_project_db) = [(5, JStr ''Data leak'')]"
    by (simp add: ex_defs assign_cols_def)
  have dp: "get_field (data ex_row_outage) ''risk_name'' = JStr ''Server outage''"
    "get_field (data ex_row_outage) ''risk_description'' = JStr ''DB unreachable''"
    "written (JStr ''Server outage'') = JStr ''Server outage''"
    by (simp_all add: ex_defs get_field_def written_def literal_text_def)
  have pp: "''project'' = ''project'' \<longrightarrow>
                  get_field (data ex_row_outage) ''risk_name'' \<noteq> JUndefined \<and>
                  get_field (data ex_row_outage) ''risk_description'' \<noteq> JUndefined \<and>
                  (linked_as None ''project'' \<or> linked_as None ''framework'' \<longrightarrow>
                     stored_integer (integer_of_text ex_env) (written (link_id_of None)) \<noteq> None) \<and>
                  (\<forall>x\<in>set (risks (store ?cp)).
                      cols x ''risk_name'' = written (get_field (data ex_row_outage) ''risk_name'') \<longrightarrow> is_deleted x)"
    by (simp add: dp linked_as_def) (simp add: ex_defs assign_cols_def)
  from overwrite_without_match_creates[where r = ex_row_outage and da = "[2 \<mapsto> ''overwrite'']" and env = ex_env
         and rt = "''project''" and c = ?cp and lnk = None and v = 0, OF hp pp]
  obtain y where
    rp: "fst (process_row ex_env ''project'' None [2 \<mapsto> ''overwrite''] ex_row_outage ?cp) =
          ok_result (rowIndex ex_row_outage) ''created'' (Some (fresh_id (risks (store ?cp))))"
    and y: "risks (store (snd (process_row ex_env ''project'' None [2 \<mapsto> ''overwrite''] ex_row_outage ?cp))) =
          risks (store ?cp) @ [y]"
       "row_id y = fresh_id (risks (store ?cp))"
       "cols y ''risk_name'' = written (get_field (data ex_row_outage) ''risk_name'')"
    by auto
  have fp: "fresh_id (risks ex_project_db) = 6"
    by (simp add: ex_defs fresh_id_def)
  from rp have rp': "fst (process_row ex_env ''project'' None [2 \<mapsto> ''overwrite''] ex_row_outage ?cp) =
     \<lparr>rowIndex = 2, success = True, riskId = Some 6, action = ''created'', error = None\<rparr>"
    by (simp add: fp ok_result_def ex_row_outage_def)
  from y tp have y': "map (\<lambda>x. (row_id x, cols x ''risk_name''))
     (risks (store (snd (process_row ex_env ''project'' None [2 \<mapsto> ''overwrite''] ex_row_outage ?cp)))) =
     [(5, JStr ''Data leak''), (6, JStr ''Server outage'')]"
    by (simp add: fp dp)
  from h(1,2,3) l s t r' x' hp(1,2) tp rp' y' show ?thesis by blast
qed

section \<open>Transactional import: skip, the vendor link, the results\<close>

text \<open>
  Claim C7. With risk type \<open>vendor\<close>, a valid row whose action is not \<open>skip\<close> ends as
  \<open>error\<close> with the message that a vendor must be selected whenever the link target is
  absent, its id is falsy, or its type is not \<open>vendor\<close>; the connection is left as it was:
  nothing is sent to the store for the row.
\<close>

theorem vendor_requires_link:
  assumes "isValid r" and "resolve_action da (rowIndex r) \<noteq> ''skip''"
      and "lnk = None \<or> (\<exists>l. lnk = Some l \<and> (\<not> truthy (link_id l) \<or> link_type l \<noteq> ''vendor''))"
  shows "process_row env ''vendor'' lnk da r c =
           (\<lparr>rowIndex = rowIndex r, success = False, riskId = None, action = ''error'',
             error = Some ''Vendor must be selected for vendor risk import''\<rparr>, c)"
  using assms by (auto simp: process_row_def try_row_def try_vendor_def linked_as_def error_result_def)

text \<open>A vendor row imported with a link to a project.\<close>

theorem vendor_requires_link_witness:
  "isValid ex_row_vendor \<and> resolve_action Map.empty (rowIndex ex_row_vendor) \<noteq> ''skip'' \<and>
   process_row ex_env ''vendor'' (Some \<lparr>link_type = ''project'', link_id = JNum 7\<rparr>) Map.empty ex_row_vendor
       \<lparr>store = ex_vendor_db, issued = [], aborted = False\<rparr> =
     (\<lparr>rowIndex = 2, success = False, riskId = None, action = ''error'',
       error = Some ''Vendor must be selected for vendor risk import''\<rparr>,
      \<lparr>store = ex_vendor_db, issued = [], aborted = False\<rparr>)"
  using vendor_requires_link[of ex_row_vendor Map.empty "Some \<lparr>link_type = ''project'', link_id = JNum 7\<rparr>" ex_env
          "\<lparr>store = ex_vendor_db, issued = [], aborted = False\<rparr>"]
  by (simp add: ex_row_vendor_def resolve_action_def)

text \<open>
  Claim C8. A valid row whose resolved action is \<open>skip\<close> ends as \<open>skipped\<close> with
  \<open>success = true\<close>, and the connection is left as it was, for every risk type and every
  link target, a missing one included.
\<close>

theorem skip_writes_nothing:
  assumes "isValid r" and "resolve_action da (rowIndex r) = ''skip''"
  shows "process_row env rt lnk da r c =
           (\<lparr>rowIndex = rowIndex r, success = True, riskId = None, action = ''skipped'', error = None\<rparr>, c)"
  using assms by (simp add: process_row_def ok_result_def)

text \<open>A vendor row with action \<open>skip\<close> and no link target.\<close>

theorem skip_writes_nothing_witness:
  "isValid ex_row_vendor \<and> resolve_action [2 \<mapsto> ''skip''] (rowIndex ex_row_vendor) = ''skip'' \<and>
   process_row ex_env ''vendor'' None [2 \<mapsto> ''skip''] ex_row_vendor \<lparr>store = ex_vendor_db, issued = [], aborted = False\<rparr> =
     (\<lparr>rowIndex = 2, success = True, riskId = None, action = ''skipped'', error = None\<rparr>,
      \<lparr>store = ex_vendor_db, issued = [], aborted = False\<rparr>)"
  using skip_writes_nothing[of ex_row_vendor "[2 \<mapsto> ''skip'']" ex_env "''vendor''" None
          "\<lparr>store = ex_vendor_db, issued = [], aborted = False\<rparr>"]
  by (simp add: ex_row_vendor_def resolve_action_def)

text \<open>
  Claim C9. When the handler answers with results, there is one result per input row, in
  the order of the rows and with their row indices; every action is \<open>created\<close>,
  \<open>overwritten\<close>, \<open>skipped\<close> or \<open>error\<close>; \<open>success\<close> holds exactly when the action is not
  \<open>error\<close>; and in the summary the total is the number of rows, the successes are the
  created, overwritten and skipped rows, and the total is successes plus errors.
\<close>

theorem import_results_shape:
  assumes "fst (import_handler env req d) = Success (results, summ)"
  shows "length results = length (validatedRows req)
       \<and> map rowIndex results = map rowIndex (validatedRows req)
       \<and> (\<forall>res\<in>set results.
             action res \<in> {''created'', ''overwritten'', ''skipped'', ''error''} \<and>
             (success res \<longleftrightarrow> action res \<noteq> ''error''))
       \<and> s_total summ = length (validatedRows req)
       \<and> s_success summ = s_created summ + s_overwritten summ + s_skipped summ
       \<and> s_total summ = s_success summ + s_errors summ"
proof -
  from import_handler_success[OF assms]
  have r: "results = fst (import_rows env (riskType req) (linkTo req) (duplicateActions req)
                          (validatedRows req) \<lparr>store = d, issued = [], aborted = False\<rparr>)"
    and s: "summ = import_summary_of results" by simp_all
  have wf: "list_all2 (\<lambda>r res. well_formed (rowIndex r) res) (validatedRows req) results"
    unfolding r by (rule import_rows_well_formed)
  then have len: "length results = length (validatedRows req)"
    by (simp add: list_all2_lengthD)
  from wf have idx: "map rowIndex results = map rowIndex (validatedRows req)"
    by (induction rule: list_all2_induct) (simp_all add: well_formed_def)
  from wf have each: "\<forall>res\<in>set results.
             action res \<in> {''created'', ''overwritten'', ''skipped'', ''error''} \<and>
             (success res \<longleftrightarrow> action res \<noteq> ''error'')"
    by (induction rule: list_all2_induct) (simp_all add: well_formed_def)
  from summary_counts[OF each] len idx each show ?thesis
    by (simp add: s import_summary_of_def)
qed

text \<open>Three project rows: one created, one overwritten, one invalid.\<close>

theorem import_results_shape_witness:
  "fst (import_handler ex_env ex_import_request ex_project_db) =
     Success ([\<lparr>rowIndex = 2, success = True, riskId = Some 6, action = ''created'', error = None\<rparr>,
               \<lparr>rowIndex = 3, success = True, riskId = Some 5, action = ''overwritten'', error = None\<rparr>,
               \<lparr>rowIndex = 4, success = False, riskId = None, action = ''error'',
                 error = Some ''Risk name is required''\<rparr>],
              \<lparr>s_total = 3, s_success = 2, s_created = 1, s_overwritten = 1, s_skipped = 0, s_errors = 1\<rparr>)
   \<and> length (validatedRows ex_import_request) = 3"
proof -
  have h: "fst (import_handler ex_env ex_import_request ex_project_db) =
     Success ([\<lparr>rowIndex = 2, success = True, riskId = Some 6, action = ''created'', error = None\<rparr>,
               \<lparr>rowIndex = 3, success = True, riskId = Some 5, action = ''overwritten'', error = None\<rparr>,
               \<lparr>rowIndex = 4, success = False, riskId = None, action = ''error'',
                 error = Some ''Risk name is required''\<rparr>],
              \<lparr>s_total = 3, s_success = 2, s_created = 1, s_overwritten = 1, s_skipped = 0, s_errors = 1\<rparr>)"
    by (simp add: ex_defs import_defs)
  from import_results_shape[OF h] h show ?thesis by simp
qed

section \<open>Duplicate detection\<close>

text \<open>
  Claim C3, as the code has it. An invalid row is passed through with
  \<open>isDuplicate = false\<close> and the connection is left as it was: no lookup is sent for it.
  When the handler answers with results, they follow the rows in order, no more lookups
  were sent than there are valid rows, and no more rows count as duplicates than are
  valid. The \<open>unique\<close> count is the total minus the duplicates: \<open>duplicates + unique\<close> is the
  number of all rows, so an invalid row counts as unique.
\<close>

theorem check_duplicates_invalid_rows:
  "(\<not> isValid r \<longrightarrow>
      check_row env rt r c =
        (Inr \<lparr>rowIndex = rowIndex r, existingRiskId = None, existingRiskName = JNull,
              isDuplicate = False\<rparr>, c))
   \<and> (check_duplicates henv req d = (Success (ds, summ), sent) \<longrightarrow>
        map rowIndex ds = map rowIndex (cd_validatedRows req) \<and>
        list_all2 (\<lambda>r dr. \<not> isValid r \<longrightarrow> dr = passed_through (rowIndex r)) (cd_validatedRows req) ds \<and>
        length sent \<le> length (filter isValid (cd_validatedRows req)) \<and>
        d_total summ = length (cd_validatedRows req) \<and>
        d_duplicates summ \<le> length (filter isValid (cd_validatedRows req)) \<and>
        d_duplicates summ + d_unique summ = length (cd_validatedRows req))"
proof (intro conjI impI)
  assume "\<not> isValid r"
  then show "check_row env rt r c =
        (Inr \<lparr>rowIndex = rowIndex r, existingRiskId = None, existingRiskName = JNull,
              isDuplicate = False\<rparr>, c)"
    by (simp add: check_row_invalid passed_through_def)
next
  assume a: "check_duplicates henv req d = (Success (ds, summ), sent)"
  then obtain c' where
    rows: "check_rows henv (cd_riskType req) (cd_validatedRows req) \<lparr>store = d, issued = [], aborted = False\<rparr> = (Inr ds, c')"
    and summ: "summ = duplicates_summary_of ds" and sent: "sent = issued c'"
    by (auto simp: check_duplicates_def split: if_splits prod.splits sum.splits)
  from check_rows_effect[OF rows] have
    l: "list_all2 (\<lambda>r dr. rowIndex dr = rowIndex r \<and> (isDuplicate dr \<longrightarrow> isValid r) \<and> (\<not> isValid r \<longrightarrow> dr = passed_through (rowIndex r))) (cd_validatedRows req) ds"
    and s: "length (issued c') \<le> length (filter isValid (cd_validatedRows req))"
    by auto
  from l have len: "length ds = length (cd_validatedRows req)" by (simp add: list_all2_lengthD)
  from l show "map rowIndex ds = map rowIndex (cd_validatedRows req)"
    by (induction rule: list_all2_induct) simp_all
  from l show "list_all2 (\<lambda>r dr. \<not> isValid r \<longrightarrow> dr = passed_through (rowIndex r)) (cd_validatedRows req) ds"
    by (rule list_all2_mono) simp
  show "length sent \<le> length (filter isValid (cd_validatedRows req))" using s sent by simp
  show "d_total summ = length (cd_validatedRows req)"
    using len by (simp add: summ duplicates_summary_of_def Let_def)
  show "d_duplicates summ \<le> length (filter isValid (cd_validatedRows req))"
    using duplicates_only_valid[OF l] by (simp add: summ duplicates_summary_of_def Let_def)
  show "d_duplicates summ + d_unique summ = length (cd_validatedRows req)"
    using len length_filter_le[of isDuplicate ds] by (simp add: summ duplicates_summary_of_def Let_def)
qed

text \<open>A stored duplicate and an invalid row: one lookup, one duplicate, one unique.\<close>

theorem check_duplicates_invalid_rows_witness:
  "\<not> isValid ex_row_invalid \<and>
   check_row ex_env ''project'' ex_row_invalid \<lparr>store = ex_project_db, issued = [], aborted = False\<rparr> =
     (Inr \<lparr>rowIndex = 4, existingRiskId = None, existingRiskName = JNull, isDuplicate = False\<rparr>,
      \<lparr>store = ex_project_db, issued = [], aborted = False\<rparr>)
   \<and> check_duplicates ex_env (ex_check_request\<lparr>cd_validatedRows := [ex_row_leak, ex_row_invalid]\<rparr>) ex_project_db =
       (Success ([\<lparr>rowIndex = 3, existingRiskId = Some 5, existingRiskName = JStr ''Data leak'', isDuplicate = True\<rparr>,
                  \<lparr>rowIndex = 4, existingRiskId = None, existingRiskName = JNull, isDuplicate = False\<rparr>],
                 \<lparr>d_total = 2, d_duplicates = 1, d_unique = 1\<rparr>),
        [SelectRisk (JStr ''Data leak'')])
   \<and> length (filter isValid [ex_row_leak, ex_row_invalid]) = 1"
proof -
  let ?req = "ex_check_request\<lparr>cd_validatedRows := [ex_row_leak, ex_row_invalid]\<rparr>"
  have inv: "\<not> isValid ex_row_invalid" by (simp add: ex_row_invalid_def)
  have run: "check_duplicates ex_env ?req ex_project_db =
       (Success ([\<lparr>rowIndex = 3, existingRiskId = Some 5, existingRiskName = JStr ''Data leak'', isDuplicate = True\<rparr>,
                  \<lparr>rowIndex = 4, existingRiskId = None, existingRiskName = JNull, isDuplicate = False\<rparr>],
                 \<lparr>d_total = 2, d_duplicates = 1, d_unique = 1\<rparr>),
        [SelectRisk (JStr ''Data leak'')])"
    by (simp add: check_duplicates_def tenant_present_def check_row_def duplicates_summary_of_def
          duplicate_entry_def and_then_def query_def select_first_def get_field_def or_null_def Let_def
          written_def literal_text_def
          assign_cols_def passed_through_def ex_defs)
  note t = check_duplicates_invalid_rows[where r = ex_row_invalid and env = ex_env and rt = "''project''"
      and c = "\<lparr>store = ex_project_db, issued = [], aborted = False\<rparr>" and henv = ex_env and req = ?req and d = ex_project_db
      and ds = "[\<lparr>rowIndex = 3, existingRiskId = Some 5, existingRiskName = JStr ''Data leak'', isDuplicate = True\<rparr>,
                  \<lparr>rowIndex = 4, existingRiskId = None, existingRiskName = JNull, isDuplicate = False\<rparr>]"
      and summ = "\<lparr>d_total = 2, d_duplicates = 1, d_unique = 1\<rparr>" and sent = "[SelectRisk (JStr ''Data leak'')]"]
  from t inv have 1: "check_row ex_env ''project'' ex_row_invalid \<lparr>store = ex_project_db, issued = [], aborted = False\<rparr> =
     (Inr \<lparr>rowIndex = rowIndex ex_row_invalid, existingRiskId = None, existingRiskName = JNull, isDuplicate = False\<rparr>,
      \<lparr>store = ex_project_db, issued = [], aborted = False\<rparr>)" by blast
  from t run have 2: "length [SelectRisk (JStr ''Data leak'')] \<le> length (filter isValid (cd_validatedRows ?req))"
    by blast
  have 3: "length (filter isValid [ex_row_leak, ex_row_invalid]) = 1"
    by (simp add: ex_row_leak_def ex_row_invalid_def)
  from 1 have e1: "check_row ex_env ''project'' ex_row_invalid \<lparr>store = ex_project_db, issued = [], aborted = False\<rparr> =
     (Inr \<lparr>rowIndex = 4, existingRiskId = None, existingRiskName = JNull, isDuplicate = False\<rparr>,
      \<lparr>store = ex_project_db, issued = [], aborted = False\<rparr>)" by (simp add: ex_row_invalid_def)
  from inv e1 run 3 show ?thesis by blast
qed

text \<open>
  One invalid row and nothing else: the summary counts it as unique, while there is no
  valid row.
\<close>

theorem unique_counts_invalid_rows:
  "check_duplicates ex_env ex_check_request ex_project_db =
     (Success ([\<lparr>rowIndex = 4, existingRiskId = None, existingRiskName = JNull, isDuplicate = False\<rparr>],
               \<lparr>d_total = 1, d_duplicates = 0, d_unique = 1\<rparr>), [])
   \<and> length (filter isValid (cd_validatedRows ex_check_request)) = 0"
  by (simp add: check_duplicates_def tenant_present_def check_row_def duplicates_summary_of_def and_then_def
        passed_through_def ex_defs)

section \<open>File decoding\<close>

text \<open>
  Claim C4, as the code has it. For an upload whose content and name are strings that are
  not empty, that passes the checks on size and extension, and that the workbook library
  reads, the decoder fails with the empty-file error exactly when the first sheet has no
  row at all. A sheet with a first row is decoded: its columns are the trimmed headers,
  and the rows kept are, in their order and
  with their place after the header row, counted from 0, plus two as \<open>rowIndex\<close>, the rows
  after the first that hold a text that is not empty after trimming in some column whose
  header is written, is not \<open>__proto__\<close>, and is not written again in a later column.
  \<open>rowCount\<close> is the number of these rows: it is 0 when the sheet has a header row alone,
  and when every cell after the header row is blank, null or white space.
\<close>

theorem parse_empty_only_without_rows:
  assumes "is_nonempty_string (fileContent req)" and "is_nonempty_string (fileName req)"
      and "buffer_length env \<le> maxFileSizeMB env * 1024 * 1024"
      and "extension env \<in> {''.csv'', ''.xlsx'', ''.xls''}"
      and "rawData env = Inr raw"
  shows "(parse env req = Failure 400 ''File is empty'' \<longleftrightarrow> raw = [])
       \<and> (\<forall>first rest. raw = first # rest \<longrightarrow>
            (let headers = map (map_option header_text) first;
                 kept = (\<lambda>r. \<exists>j<length headers. \<exists>h. headers ! j = Some h \<and> h \<noteq> ''__proto__'' \<and>
                              (\<forall>k<length headers. j < k \<longrightarrow> headers ! k \<noteq> Some h) \<and>
                              cell_text r j \<noteq> [])
             in \<exists>pd. parse env req = Success pd \<and>
                  columns pd = headers \<and>
                  rowCount pd = length (filter kept rest) \<and>
                  rowCount pd = length (allRows pd) \<and>
                  map rowIndex (allRows pd) =
                    map (\<lambda>p. fst p + 2) (filter (\<lambda>p. kept (snd p)) (enumerate 0 rest)) \<and>
                  map data (allRows pd) = map (row_data headers) (filter kept rest) \<and>
                  preview pd = take (previewRowCount env) (allRows pd) \<and>
                  ((\<forall>r\<in>set rest. \<forall>j. cell_text r j = []) \<longrightarrow> rowCount pd = 0)))"
proof -
  from assms(1) have "truthy (fileContent req)"
    by (cases "fileContent req") (simp_all add: is_nonempty_string_def)
  with assms have p: "parse env req = decode_sheet env raw"
    by (auto simp: parse_def)
  show ?thesis
  proof (cases raw)
    case Nil
    then show ?thesis by (simp add: p decode_sheet_def)
  next
    case (Cons first rest)
    define headers where "headers = map (map_option header_text) first"
    define kept where "kept = (\<lambda>r. \<exists>j<length headers. \<exists>h. headers ! j = Some h \<and> h \<noteq> ''__proto__'' \<and>
                              (\<forall>k<length headers. j < k \<longrightarrow> headers ! k \<noteq> Some h) \<and>
                              cell_text r j \<noteq> [])"
    have k: "(\<lambda>r. has_value headers (row_data headers r)) = kept"
      unfolding kept_def by (rule ext) (rule has_value_iff)
    have k2: "(\<lambda>p. has_value headers (row_data headers (snd p))) = (\<lambda>p. kept (snd p))"
      unfolding kept_def by (rule ext) (rule has_value_iff)
    let ?pd = "\<lparr>columns = headers, rowCount = length (parse_rows headers rest),
                preview = take (previewRowCount env) (parse_rows headers rest),
                allRows = parse_rows headers rest\<rparr>"
    have s: "parse env req = Success ?pd"
      by (simp add: p Cons decode_sheet_def Let_def headers_def)
    have blank: "(\<forall>r\<in>set rest. \<forall>j. cell_text r j = []) \<longrightarrow> filter kept rest = []"
      by (auto simp: kept_def filter_empty_conv)
    have "\<exists>pd. parse env req = Success pd \<and>
                  columns pd = headers \<and>
                  rowCount pd = length (filter kept rest) \<and>
                  rowCount pd = length (allRows pd) \<and>
                  map rowIndex (allRows pd) =
                    map (\<lambda>p. fst p + 2) (filter (\<lambda>p. kept (snd p)) (enumerate 0 rest)) \<and>
                  map data (allRows pd) = map (row_data headers) (filter kept rest) \<and>
                  preview pd = take (previewRowCount env) (allRows pd) \<and>
                  ((\<forall>r\<in>set rest. \<forall>j. cell_text r j = []) \<longrightarrow> rowCount pd = 0)"
      using parse_rows_kept[of headers rest, unfolded k k2] blank
      by (intro exI[of _ ?pd]) (simp add: s)
    from this[unfolded kept_def headers_def] show ?thesis
      unfolding Cons by (auto simp: Let_def)
  qed
qed

text \<open>
  A sheet without rows; a sheet of which two rows of four are kept, the second and the
  fourth after the header; and a sheet whose rows after the header are blank.
\<close>

theorem parse_empty_only_without_rows_witness:
  "is_nonempty_string (fileContent ex_parse_request) \<and> is_nonempty_string (fileName ex_parse_request) \<and>
   extension (ex_parse_env []) \<in> {''.csv'', ''.xlsx'', ''.xls''} \<and>
   parse (ex_parse_env []) ex_parse_request = Failure 400 ''File is empty'' \<and>
   (\<exists>pd. parse (ex_parse_env ex_sheet) ex_parse_request = Success pd \<and>
         columns pd = [Some ''Risk name'', Some ''Owner''] \<and> rowCount pd = 2 \<and>
         map rowIndex (allRows pd) = [3, 5]) \<and>
   (\<exists>pd. parse (ex_parse_env ex_blank_sheet) ex_parse_request = Success pd \<and> rowCount pd = 0)"
proof -
  have h: "is_nonempty_string (fileContent ex_parse_request)" "is_nonempty_string (fileName ex_parse_request)"
    "buffer_length (ex_parse_env raw) \<le> maxFileSizeMB (ex_parse_env raw) * 1024 * 1024"
    "extension (ex_parse_env raw) \<in> {''.csv'', ''.xlsx'', ''.xls''}"
    "rawData (ex_parse_env raw) = Inr raw" for raw
    by (simp_all add: ex_defs is_nonempty_string_def)
  from parse_empty_only_without_rows[OF h, of "[]"]
  have 1: "parse (ex_parse_env []) ex_parse_request = Failure 400 ''File is empty''" by simp
  have t: "trim '' Risk name '' = ''Risk name''" "trim ''Owner'' = ''Owner''" "trim [CHR 0xC2, CHR 0xA0] = []"
    "trim ''Server outage'' = ''Server outage''" "trim ''1e+21'' = ''1e+21''" "trim ''Risk name'' = ''Risk name''"
    "trim ''  '' = []"
    by (simp_all add: trim_def white_space_def)
  from parse_empty_only_without_rows[OF h, of ex_sheet, THEN conjunct2, rule_format, OF ex_sheet_def]
  have 2: "\<exists>pd. parse (ex_parse_env ex_sheet) ex_parse_request = Success pd \<and>
         columns pd = [Some ''Risk name'', Some ''Owner''] \<and> rowCount pd = 2 \<and>
         map rowIndex (allRows pd) = [3, 5]"
    by (auto simp: Let_def header_text_def cell_text_def t Ex_less_Suc All_less_Suc nth_Cons')
  have b: "\<forall>r\<in>set [[Some (CStr ''  '')], []]. \<forall>j. cell_text r j = []"
    by (simp add: cell_text_def t nth_Cons')
  from parse_empty_only_without_rows[OF h, of ex_blank_sheet, THEN conjunct2, rule_format, OF ex_blank_sheet_def] b
  have 3: "\<exists>pd. parse (ex_parse_env ex_blank_sheet) ex_parse_request = Success pd \<and> rowCount pd = 0"
    unfolding Let_def by blast
  from h(1,2) h(4)[of "[]"] 1 2 3 show ?thesis by blast
qed

text \<open>A sheet of a header row alone is decoded, with \<open>rowCount = 0\<close>.\<close>

theorem header_only_sheet_is_decoded:
  "parse (ex_parse_env [[Some (CStr ''Risk name''), Some (CStr ''Risk description'')]]) ex_parse_request =
     Success \<lparr>columns = [Some ''Risk name'', Some ''Risk description''], rowCount = 0,
              preview = [], allRows = []\<rparr>"
  by (simp add: parse_def decode_sheet_def parse_rows_def header_text_def trim_def white_space_def
        is_nonempty_string_def ex_defs)

section \<open>The risk level\<close>

text \<open>
  Claim C6. The labels \<open>constructor\<close> and \<open>name\<close> match no cell of the matrix, and the
  lookup returns the string \<open>Object\<close> for them, not null: \<open>RISK_MATRIX\<close> is an object
  literal, so \<open>RISK_MATRIX["constructor"]\<close> is the inherited \<open>Object\<close> function, and its
  \<open>name\<close> is a non-empty string. Validation of a project row with these two cells stores
  \<open>Object\<close> as the row's calculated level.
\<close>

theorem inherited_name_is_not_a_miss:
  "map_of RISK_MATRIX ''constructor'' = None \<and>
   calculateRiskLevel (JStr ''constructor'') (JStr ''name'') = Some (JStr ''Object'') \<and>
   map_option (\<lambda>v. data v ''risk_level_autocalculated'')
     (validate_row ex_validate_env ex_level_mapping ''project'' ex_parsed_odd_row) =
       Some (Some (JStr ''Object''))"
proof -
  have m: "map_of RISK_MATRIX ''constructor'' = None"
    by (simp add: RISK_MATRIX_def)
  have c: "calculateRiskLevel (JStr ''constructor'') (JStr ''name'') = Some (JStr ''Object'')"
    by (simp add: calculateRiskLevel_def matrix_cell_def m object_prototype_names_def
          builtin_get_def builtin_function_name_def or_null_def)
  have d: "check_dates env PROJECT_RISK_FIELDS (errs, md) = (errs, md)"
    if "js_get md ''deadline'' = JUndefined" for env errs md
    using that
    by (simp add: check_dates_def check_date_def PROJECT_RISK_FIELDS_def mk_field_def)
  have g: "js_get (apply_mapping ex_level_mapping (data ex_parsed_odd_row)) ''likelihood'' = JStr ''constructor''"
    "js_get (apply_mapping ex_level_mapping (data ex_parsed_odd_row)) ''severity'' = JStr ''name''"
    "js_get (apply_mapping ex_level_mapping (data ex_parsed_odd_row)) ''deadline'' = JUndefined"
    by (simp_all add: ex_defs apply_mapping_def js_set_def js_get_def or_null_def object_prototype_names_def)
  have v: "map_option (\<lambda>v. data v ''risk_level_autocalculated'')
     (validate_row ex_validate_env ex_level_mapping ''project'' ex_parsed_odd_row) =
       Some (Some (JStr ''Object''))"
    by (simp add: validate_row_def fields_for_def Let_def d[OF g(3)] g(1,2) c auto_calculate_def
          store_level_def js_set_def ex_validate_env_def)
  from m c v show ?thesis by blast
qed

text \<open>Both labels are truthy, and the level returned is not null.\<close>

theorem inherited_name_is_not_a_miss_witness:
  "truthy (JStr ''constructor'') \<and> truthy (JStr ''name'') \<and>
   calculateRiskLevel (JStr ''constructor'') (JStr ''name'') \<noteq> Some JNull"
  using inherited_name_is_not_a_miss by simp

text \<open>
  Claim C10. For risk type \<open>vendor\<close> with the auto-calculation on, and a row whose
  enumerated fields pass the enum check (each is absent or one of the vendor options):
  validation returns the row, and its \<open>risk_level\<close> is the calculated level exactly when
  \<open>risk_severity\<close> is \<open>Moderate\<close> and \<open>likelihood\<close> is \<open>Likely\<close>, \<open>Possible\<close>, \<open>Unlikely\<close> or
  \<open>Rare\<close>; in every other case, \<open>Very likely\<close> and the four other severities included, the
  step stores nothing and \<open>risk_level\<close> is what the mapping left there, which is nothing
  when no mapping entry targets it.
\<close>

theorem vendor_auto_calculated_level:
  assumes auto: "autoCalculateRiskLevel env"
      and enums: "enum_errors VENDOR_RISK_FIELDS (apply_mapping mapping (data r)) = []"
  shows "\<exists>v. validate_row env mapping ''vendor'' r = Some v \<and>
           (let md = apply_mapping mapping (data r);
                likelihood = js_get md ''likelihood'';
                severity = js_get md ''risk_severity''
            in data v ''risk_level'' =
                 (if severity = JStr ''Moderate'' \<and> likelihood = JStr ''Likely'' then Some (JStr ''High risk'')
                  else if severity = JStr ''Moderate'' \<and> likelihood = JStr ''Possible'' then Some (JStr ''Medium risk'')
                  else if severity = JStr ''Moderate'' \<and> likelihood = JStr ''Unlikely'' then Some (JStr ''Low risk'')
                  else if severity = JStr ''Moderate'' \<and> likelihood = JStr ''Rare'' then Some (JStr ''Very low risk'')
                  else md ''risk_level'')
               \<and> ((\<forall>m\<in>set mapping. targetField m \<noteq> ''risk_level'') \<longrightarrow>
                    (data v ''risk_level'' = None) =
                      (\<not> (severity = JStr ''Moderate'' \<and>
                          likelihood \<in> {JStr ''Likely'', JStr ''Possible'', JStr ''Unlikely'', JStr ''Rare''}))))"
proof -
  from vendor_level_value[OF auto enums] obtain v where
    v: "validate_row env mapping ''vendor'' r = Some v" and
    l: "data v ''risk_level'' =
               (let md = apply_mapping mapping (data r);
                    likelihood = js_get md ''likelihood'';
                    severity = js_get md ''risk_severity''
                in if severity = JStr ''Moderate'' \<and> likelihood = JStr ''Likely'' then Some (JStr ''High risk'')
                   else if severity = JStr ''Moderate'' \<and> likelihood = JStr ''Possible'' then Some (JStr ''Medium risk'')
                   else if severity = JStr ''Moderate'' \<and> likelihood = JStr ''Unlikely'' then Some (JStr ''Low risk'')
                   else if severity = JStr ''Moderate'' \<and> likelihood = JStr ''Rare'' then Some (JStr ''Very low risk'')
                   else md ''risk_level'')"
    by blast
  have u: "(\<forall>m\<in>set mapping. targetField m \<noteq> ''risk_level'') \<Longrightarrow>
           apply_mapping mapping (data r) ''risk_level'' = None"
    by (rule apply_mapping_untargeted)
  from l u have "let md = apply_mapping mapping (data r);
                likelihood = js_get md ''likelihood'';
                severity = js_get md ''risk_severity''
            in data v ''risk_level'' =
                 (if severity = JStr ''Moderate'' \<and> likelihood = JStr ''Likely'' then Some (JStr ''High risk'')
                  else if severity = JStr ''Moderate'' \<and> likelihood = JStr ''Possible'' then Some (JStr ''Medium risk'')
                  else if severity = JStr ''Moderate'' \<and> likelihood = JStr ''Unlikely'' then Some (JStr ''Low risk'')
                  else if severity = JStr ''Moderate'' \<and> likelihood = JStr ''Rare'' then Some (JStr ''Very low risk'')
                  else md ''risk_level'')
               \<and> ((\<forall>m\<in>set mapping. targetField m \<noteq> ''risk_level'') \<longrightarrow>
                    (data v ''risk_level'' = None) =
                      (\<not> (severity = JStr ''Moderate'' \<and>
                          likelihood \<in> {JStr ''Likely'', JStr ''Possible'', JStr ''Unlikely'', JStr ''Rare''})))"
    by (auto simp: Let_def)
  with v show ?thesis by blast
qed

text \<open>
  A vendor row with likelihood \<open>Likely\<close> and severity \<open>Moderate\<close> ends with the level
  \<open>High risk\<close>; with likelihood \<open>Very likely\<close> it ends with no level.
\<close>

theorem vendor_auto_calculated_level_witness:
  "autoCalculateRiskLevel ex_validate_env \<and>
   enum_errors VENDOR_RISK_FIELDS (apply_mapping ex_vendor_mapping (data ex_parsed_vendor_row)) = [] \<and>
   (\<exists>v. validate_row ex_validate_env ex_vendor_mapping ''vendor'' ex_parsed_vendor_row = Some v \<and>
        data v ''risk_level'' = Some (JStr ''High risk'')) \<and>
   (\<exists>v. validate_row ex_validate_env ex_vendor_mapping ''vendor''
           (ex_parsed_vendor_row\<lparr>data := (data ex_parsed_vendor_row)(''Likelihood'' \<mapsto> ''Very likely'')\<rparr>) = Some v \<and>
        data v ''risk_level'' = None)"
proof -
  let ?r2 = "ex_parsed_vendor_row\<lparr>data := (data ex_parsed_vendor_row)(''Likelihood'' \<mapsto> ''Very likely'')\<rparr>"
  have h: "autoCalculateRiskLevel ex_validate_env"
    "enum_errors VENDOR_RISK_FIELDS (apply_mapping ex_vendor_mapping (data ex_parsed_vendor_row)) = []"
    "enum_errors VENDOR_RISK_FIELDS (apply_mapping ex_vendor_mapping (data ?r2)) = []"
    by (simp_all add: ex_defs enum_errors_def enum_violation_def VENDOR_RISK_FIELDS_def mk_field_def
          apply_mapping_def js_set_def js_get_def or_null_def js_includes_def)
  have m: "js_get (apply_mapping ex_vendor_mapping (data ex_parsed_vendor_row)) ''likelihood'' = JStr ''Likely''"
    "js_get (apply_mapping ex_vendor_mapping (data ex_parsed_vendor_row)) ''risk_severity'' = JStr ''Moderate''"
    "js_get (apply_mapping ex_vendor_mapping (data ?r2)) ''likelihood'' = JStr ''Very likely''"
    "js_get (apply_mapping ex_vendor_mapping (data ?r2)) ''risk_severity'' = JStr ''Moderate''"
    by (simp_all add: ex_defs apply_mapping_def js_set_def js_get_def or_null_def)
  have t: "\<forall>m\<in>set ex_vendor_mapping. targetField m \<noteq> ''risk_level''"
    by (simp add: ex_vendor_mapping_def)
  from vendor_auto_calculated_level[OF h(1,2)] m(1,2)
  have 1: "\<exists>v. validate_row ex_validate_env ex_vendor_mapping ''vendor'' ex_parsed_vendor_row = Some v \<and>
        data v ''risk_level'' = Some (JStr ''High risk'')"
    by (auto simp: Let_def)
  from vendor_auto_calculated_level[OF h(1,3)] m(3,4) t
  have 2: "\<exists>v. validate_row ex_validate_env ex_vendor_mapping ''vendor'' ?r2 = Some v \<and>
        data v ''risk_level'' = None"
    by (auto simp: Let_def)
  from h(1,2) 1 2 show ?thesis by blast
qed

end
